theory Spec2Isabelle
  imports Main "HOL-Library.Sublist"
begin

section \<open>Values, errors and the observable trace\<close>

text \<open>
  The backend of \<^verbatim>\<open>src/backend/server.js\<close> talks to three collaborators: a generative
  model API, a browser driven through Playwright and the Figma HTTP API. None of them is
  code of the repository, so each is a parameter of the model: an oracle that decides the
  outcome of every awaited call. Whatever the program does to the outside world is
  appended to a trace of events, so that the number and the order of requests can be
  stated.

  A thrown JavaScript \<^verbatim>\<open>Error\<close> is represented by its \<^verbatim>\<open>message\<close>, the only part
  the program reads.
\<close>

datatype error = Error (message: string)

text \<open>
  A decoded JSON document. Numbers are restricted to integers (no claim reads a number);
  \<^verbatim>\<open>undefined\<close>, which is not a JSON value, is \<open>None\<close> of \<open>json option\<close>.
\<close>

datatype json =
    JNull
  | JBool bool
  | JNum int
  | JStr string
  | JArr "json list"
  | JObj "(string \<times> json) list"

text \<open>
  An image part of a multimodal request, \<^verbatim>\<open>{ inlineData: { data, mimeType } }\<close>.
  The data is whatever the caller holds, a base64 text or \<^verbatim>\<open>null\<close>.
\<close>

datatype part = InlineData "string option" string

text \<open>
  The three template literals that serve as prompts, each represented by the variables
  it interpolates; the fixed text around them and the rendering of each variable
  (upper-casing, \<^verbatim>\<open>JSON.stringify\<close>, the replacement of double quotes) are not spelled
  out. The planner's prompt reads \<^verbatim>\<open>device\<close>; the designer's prompt is constant; the
  final prompt reads \<^verbatim>\<open>plan\<close>, \<^verbatim>\<open>auditData.consoleLogs.length\<close>,
  \<^verbatim>\<open>auditData.networkStatus\<close> and \<^verbatim>\<open>designAnalysis\<close>.
\<close>

datatype prompt =
    ArchitectPrompt string
  | DesignPrompt
  | FinalReportPrompt "json option" nat int string

text \<open>
  The lines the program prints, one constructor per \<^verbatim>\<open>console.log\<close>,
  \<^verbatim>\<open>console.warn\<close> or \<^verbatim>\<open>console.error\<close> call of the source, carrying the values
  interpolated into the line.
\<close>

datatype logline =
    TryingModel string
  | ModelFailed string
  | CreatingTestPlan
  | ArchitectFailed error
  | RunningAudit string
  | FetchingFigma
  | FigmaFetchError string
  | ComparingDesign
  | MissionStart string json
  | MissionAborted error

text \<open>
  What the page reports to the two listeners of the audit: a console message with its type
  and text, a response with its URL and status.
\<close>

datatype page_event =
    ConsoleMessage string string
  | Response string int

text \<open>The calls made on the Playwright objects, with their arguments.\<close>

datatype browser_call =
    Launch
  | NewContext "nat \<times> nat" bool
  | NewPage
  | Goto string nat
  | WaitForTimeout nat
  | Title
  | Screenshot
  | Evaluate
  | Close

text \<open>
  The trace: lines printed, generation requests (model, prompt, image parts), HTTP requests
  (the argument given to \<^verbatim>\<open>fetch\<close> and the headers), browser calls, and the page
  events delivered to the listeners.
\<close>

datatype event =
    Console logline
  | GenerateContent string prompt "part list"
  | Fetch json "(string \<times> string) list"
  | Browser browser_call
  | Delivered page_event

type_synonym trace = "event list"

fun is_GenerateContent :: "event \<Rightarrow> bool" where
  "is_GenerateContent (GenerateContent m p ps) = True"
| "is_GenerateContent e = False"

fun is_Fetch :: "event \<Rightarrow> bool" where
  "is_Fetch (Fetch u h) = True"
| "is_Fetch e = False"

text \<open>The generation requests of a trace, in order, and the models they went to.\<close>

definition requests :: "trace \<Rightarrow> event list" where
  "requests tr = filter is_GenerateContent tr"

fun models_of :: "trace \<Rightarrow> string list" where
  "models_of [] = []"
| "models_of (GenerateContent m p ps # tr) = m # models_of tr"
| "models_of (e # tr) = models_of tr"

fun failures_of :: "trace \<Rightarrow> string list" where
  "failures_of [] = []"
| "failures_of (Console (ModelFailed m) # tr) = m # failures_of tr"
| "failures_of (e # tr) = failures_of tr"

section \<open>The generation provider\<close>

text \<open>
  \<^verbatim>\<open>model.generateContent([prompt, ...imageParts])\<close> followed by
  \<^verbatim>\<open>response.text()\<close>: the oracle is asked with the number of generation requests
  issued before this one, the model, the prompt and the parts, and answers with the text
  or with \<open>None\<close> when anything inside the \<^verbatim>\<open>try\<close> block throws (timeout, quota,
  a response without text).
\<close>

type_synonym genai = "nat \<Rightarrow> string \<Rightarrow> prompt \<Rightarrow> part list \<Rightarrow> string option"

text \<open>
  \<^verbatim>\<open>[preferredModel, "gemini-2.5-flash", ...].filter(Boolean)\<close>: an entry survives when
  it is truthy, that is, neither \<^verbatim>\<open>undefined\<close>/\<^verbatim>\<open>null\<close> nor the empty string.
\<close>

definition filter_Boolean :: "string option list \<Rightarrow> string list" where
  "filter_Boolean vs = [m. Some m \<leftarrow> vs, m \<noteq> []]"

definition fallback_chain :: "string list" where
  "fallback_chain =
     [''gemini-2.5-flash'', ''gemini-2.0-flash-exp'', ''gemini-1.5-pro'', ''gemini-1.5-flash'']"

definition modelsToTry :: "string option \<Rightarrow> string list" where
  "modelsToTry preferredModel =
     filter_Boolean
       [preferredModel,
        Some ''gemini-2.5-flash'',
        Some ''gemini-2.0-flash-exp'',
        Some ''gemini-1.5-pro'',
        Some ''gemini-1.5-flash'']"

definition ProviderExhausted :: error where
  "ProviderExhausted = Error ''All AI agents failed to respond.''"

text \<open>
  The \<^verbatim>\<open>for (const modelName of modelsToTry)\<close> loop: a successful attempt returns
  from inside the loop, a failed one prints a warning and goes on; after the last
  candidate the function throws.
\<close>

fun try_models :: "genai \<Rightarrow> prompt \<Rightarrow> part list \<Rightarrow> string list \<Rightarrow> trace \<Rightarrow> (error + string) \<times> trace" where
  "try_models ai p ps [] tr = (Inl ProviderExhausted, tr)"
| "try_models ai p ps (modelName # rest) tr =
     (let tr1 = tr @ [Console (TryingModel modelName), GenerateContent modelName p ps] in
      case ai (length (requests tr)) modelName p ps of
        Some text \<Rightarrow> (Inr text, tr1)
      | None \<Rightarrow> try_models ai p ps rest (tr1 @ [Console (ModelFailed modelName)]))"

definition generate :: "genai \<Rightarrow> prompt \<Rightarrow> part list \<Rightarrow> string option \<Rightarrow> trace \<Rightarrow> (error + string) \<times> trace" where
  "generate ai p imageParts preferredModel tr = try_models ai p imageParts (modelsToTry preferredModel) tr"


section \<open>JavaScript values and strings\<close>

text \<open>
  Truthiness, as \<^verbatim>\<open>!x\<close>, \<^verbatim>\<open>x || y\<close> and \<^verbatim>\<open>x ? a : b\<close> read it: of an optional
  string (\<^verbatim>\<open>undefined\<close>, \<^verbatim>\<open>null\<close> and the empty string are falsy) and of a decoded
  JSON value.
\<close>

definition truthy :: "string option \<Rightarrow> bool" where
  "truthy v = (case v of None \<Rightarrow> False | Some s \<Rightarrow> s \<noteq> [])"

fun truthy_json :: "json \<Rightarrow> bool" where
  "truthy_json JNull = False"
| "truthy_json (JBool b) = b"
| "truthy_json (JNum n) = (n \<noteq> 0)"
| "truthy_json (JStr s) = (s \<noteq> [])"
| "truthy_json (JArr xs) = True"
| "truthy_json (JObj kvs) = True"

text \<open>An optional string inside a template literal: \<^verbatim>\<open>undefined\<close> is spelled out.\<close>

definition interpolate :: "string option \<Rightarrow> string" where
  "interpolate v = (case v of None \<Rightarrow> ''undefined'' | Some s \<Rightarrow> s)"

text \<open>
  Reading a property that no prototype defines (\<^verbatim>\<open>test_plan\<close>, \<^verbatim>\<open>thumbnailUrl\<close>):
  on \<^verbatim>\<open>null\<close> a \<^verbatim>\<open>TypeError\<close> is thrown, on an object the own property or
  \<^verbatim>\<open>undefined\<close> results, on every other value \<^verbatim>\<open>undefined\<close>.
\<close>

fun get_property :: "json \<Rightarrow> string \<Rightarrow> error + json option" where
  "get_property JNull k = Inl (Error (''Cannot read properties of null (reading '' @ [CHR 0x27] @ k @ [CHR 0x27] @ '')''))"
| "get_property (JObj kvs) k = Inr (map_of kvs k)"
| "get_property v k = Inr None"

text \<open>
  \<^verbatim>\<open>s.replace(/pat/g, '')\<close> for a literal, non-empty pattern: every occurrence is
  removed, scanning from the left and continuing after each match.
\<close>

fun remove_all :: "string \<Rightarrow> string \<Rightarrow> string" where
  "remove_all pat [] = []"
| "remove_all pat (c # cs) =
     (if pat \<noteq> [] \<and> take (length pat) (c # cs) = pat
      then remove_all pat (drop (length pat - 1) cs)
      else c # remove_all pat cs)"

text \<open>
  \<^verbatim>\<open>s.trim()\<close>; a character is a code unit below 256, and the white space and line
  terminators of the language in that range are tab, line feed, vertical tab, form feed,
  carriage return, space and no-break space.
\<close>

definition is_space :: "char \<Rightarrow> bool" where
  "is_space c =
     (c = CHR 0x09 \<or> c = CHR 0x0A \<or> c = CHR 0x0B \<or> c = CHR 0x0C \<or> c = CHR 0x0D
      \<or> c = CHR 0x20 \<or> c = CHR 0xA0)"

definition trim :: "string \<Rightarrow> string" where
  "trim s = rev (dropWhile is_space (rev (dropWhile is_space s)))"

text \<open>The code-fence marker, three grave accents, and the marker followed by \<^verbatim>\<open>json\<close>.\<close>

definition fence :: string where
  "fence = [CHR 0x60, CHR 0x60, CHR 0x60]"

definition fence_json :: string where
  "fence_json = fence @ ''json''"

text \<open>The cleaning applied to a model's answer before \<^verbatim>\<open>JSON.parse\<close>, at both places.\<close>

definition strip_fences :: "string \<Rightarrow> string" where
  "strip_fences rawText = trim (remove_all fence (remove_all fence_json rawText))"

text \<open>
  \<^verbatim>\<open>JSON.parse\<close> belongs to the platform: it is a parameter, answering with the decoded
  value or with the \<^verbatim>\<open>SyntaxError\<close> it throws.
\<close>

type_synonym json_parser = "string \<Rightarrow> error + json"

section \<open>The architect: the test plan\<close>

definition fallback_plan :: json where
  "fallback_plan =
     JArr [JObj [(''id'', JNum 0), (''action'', JStr ''Fallback Plan''),
                 (''expectation'', JStr ''Verify Page Load'')]]"

text \<open>
  The body of the \<^verbatim>\<open>try\<close> block of \<^verbatim>\<open>createTestPlan\<close>: the generation call without
  a preferred model, the cleaning, the parse and the read of \<^verbatim>\<open>test_plan\<close>. The
  result can be \<^verbatim>\<open>undefined\<close>.
\<close>

definition createTestPlan_try ::
  "genai \<Rightarrow> json_parser \<Rightarrow> prompt \<Rightarrow> part \<Rightarrow> trace \<Rightarrow> (error + json option) \<times> trace" where
  "createTestPlan_try ai parser p imagePart tr =
     (case generate ai p [imagePart] None tr of
        (Inl e, tr1) \<Rightarrow> (Inl e, tr1)
      | (Inr rawText, tr1) \<Rightarrow>
          (case parser (strip_fences rawText) of
             Inl e \<Rightarrow> (Inl e, tr1)
           | Inr v \<Rightarrow>
               (case get_property v ''test_plan'' of
                  Inl e \<Rightarrow> (Inl e, tr1)
                | Inr plan \<Rightarrow> (Inr plan, tr1))))"

text \<open>
  The prompt of the planner is built before the \<^verbatim>\<open>try\<close> block, and its template
  calls \<^verbatim>\<open>device.toUpperCase()\<close>. The device comes from the body of the request and
  can be any decoded JSON value; the method exists on strings only, so that every other
  value makes the template throw a \<^verbatim>\<open>TypeError\<close>.
\<close>

fun architect_prompt :: "json \<Rightarrow> error + prompt" where
  "architect_prompt (JStr s) = Inr (ArchitectPrompt s)"
| "architect_prompt JNull =
     Inl (Error (''Cannot read properties of null (reading '' @ [CHR 0x27] @ ''toUpperCase'' @ [CHR 0x27] @ '')''))"
| "architect_prompt v = Inl (Error ''device.toUpperCase is not a function'')"

text \<open>
  \<^verbatim>\<open>createTestPlan(htmlSnippet, screenshotBase64, device)\<close>: an error of the template
  leaves the function; whatever the \<^verbatim>\<open>try\<close> block throws is printed and replaced by
  the fallback plan. The first parameter is not used by the source.
\<close>

definition createTestPlan ::
  "genai \<Rightarrow> json_parser \<Rightarrow> string \<Rightarrow> string option \<Rightarrow> json \<Rightarrow> trace
     \<Rightarrow> (error + json option) \<times> trace" where
  "createTestPlan ai parser snippet screenshotBase64 device tr =
     (let tr0 = tr @ [Console CreatingTestPlan] in
      case architect_prompt device of
        Inl e \<Rightarrow> (Inl e, tr0)
      | Inr p \<Rightarrow>
          (let imagePart = InlineData screenshotBase64 ''image/png'' in
           case createTestPlan_try ai parser p imagePart tr0 of
             (Inl e, tr1) \<Rightarrow> (Inr (Some fallback_plan), tr1 @ [Console (ArchitectFailed e)])
           | (Inr plan, tr1) \<Rightarrow> (Inr plan, tr1)))"

section \<open>The executor: the technical audit\<close>

text \<open>The \<^verbatim>\<open>auditResults\<close> object; \<^verbatim>\<open>screenshot\<close> starts as \<^verbatim>\<open>null\<close>.\<close>

record audit =
  consoleLogs :: "string list"
  networkStatus :: int
  screenshot :: "string option"
  title :: string
  htmlSnippet :: string

text \<open>
  The browser. \<open>reply\<close> decides every awaited call from what has happened so far: the
  call throws an error with the message \<open>Inl msg\<close>, or returns; for \<^verbatim>\<open>page.title()\<close>
  the value returned is the title, for \<^verbatim>\<open>page.screenshot()\<close> the captured buffer,
  written as the base64 text that \<^verbatim>\<open>buffer.toString('base64')\<close> gives, for
  \<^verbatim>\<open>page.evaluate\<close> the \<^verbatim>\<open>innerText\<close> of the document's body. \<open>emitted\<close> gives
  the page events that reach the listeners while the call is awaited. The two viewports
  come from Playwright's device table.
\<close>

record playwright =
  reply :: "trace \<Rightarrow> browser_call \<Rightarrow> string + string"
  emitted :: "trace \<Rightarrow> browser_call \<Rightarrow> page_event list"
  iPhone_12 :: "nat \<times> nat"
  iPad_Pro_11 :: "nat \<times> nat"

text \<open>
  The two listeners: the console listener keeps messages of type \<^verbatim>\<open>error\<close> and
  \<^verbatim>\<open>warning\<close>; the response listener stores the status when the response's URL is
  \<^verbatim>\<open>===\<close> the URL given to the audit.
\<close>

fun on_event :: "string \<Rightarrow> audit \<Rightarrow> page_event \<Rightarrow> audit" where
  "on_event url a (ConsoleMessage ty txt) =
     (if ty = ''error'' \<or> ty = ''warning''
      then a\<lparr>consoleLogs := consoleLogs a @ [''['' @ ty @ ''] '' @ txt]\<rparr>
      else a)"
| "on_event url a (Response u st) =
     (if u = url then a\<lparr>networkStatus := st\<rparr> else a)"

text \<open>An awaited call before the listeners are attached, and one after.\<close>

definition call :: "playwright \<Rightarrow> browser_call \<Rightarrow> trace \<Rightarrow> (string + string) \<times> trace" where
  "call pw c tr = (reply pw tr c, tr @ [Browser c])"

definition await_page ::
  "playwright \<Rightarrow> string \<Rightarrow> browser_call \<Rightarrow> audit \<Rightarrow> trace \<Rightarrow> (string + string) \<times> audit \<times> trace" where
  "await_page pw url c a tr =
     (reply pw tr c,
      foldl (on_event url) a (emitted pw tr c),
      tr @ Browser c # map Delivered (emitted pw tr c))"

text \<open>
  The device name is whatever the request gave; \<^verbatim>\<open>===\<close> holds for the two strings
  only, and every other value takes the desktop viewport.
\<close>

definition viewport_for :: "playwright \<Rightarrow> json \<Rightarrow> (nat \<times> nat) \<times> bool" where
  "viewport_for pw deviceName =
     (if deviceName = JStr ''mobile'' then (iPhone_12 pw, True)
      else if deviceName = JStr ''tablet'' then (iPad_Pro_11 pw, True)
      else ((1920, 1080), False))"

definition AuditFailure :: "string \<Rightarrow> error" where
  "AuditFailure cause = Error (''Executor Audit Failed: '' @ cause)"

text \<open>
  The \<^verbatim>\<open>try\<close> block of \<^verbatim>\<open>executeAudit\<close> from \<^verbatim>\<open>chromium.launch\<close> to
  \<^verbatim>\<open>page.evaluate\<close>, that is, everything before the closing of the browser, in the
  three parts the source marks by its comments. Each part yields the message of the error
  thrown or its result.

  Device setup: the launch, the choice of the viewport, the context and the page. The
  Boolean tells whether the variable \<^verbatim>\<open>browser\<close> has been assigned.
\<close>

definition open_page :: "playwright \<Rightarrow> json \<Rightarrow> trace \<Rightarrow> (string + unit) \<times> bool \<times> trace" where
  "open_page pw deviceName tr0 =
     (case call pw Launch tr0 of
        (Inl msg, tr1) \<Rightarrow> (Inl msg, False, tr1)
      | (Inr browser, tr1) \<Rightarrow>
      (case viewport_for pw deviceName of (viewport, isMobile) \<Rightarrow>
      (case call pw (NewContext viewport isMobile) tr1 of
        (Inl msg, tr2) \<Rightarrow> (Inl msg, True, tr2)
      | (Inr context, tr2) \<Rightarrow>
      (case call pw NewPage tr2 of
        (Inl msg, tr3) \<Rightarrow> (Inl msg, True, tr3)
      | (Inr page, tr3) \<Rightarrow> (Inr (), True, tr3)))))"

text \<open>Navigation, with both listeners attached: \<^verbatim>\<open>goto\<close> and the stability wait.\<close>

definition navigate :: "playwright \<Rightarrow> string \<Rightarrow> audit \<Rightarrow> trace \<Rightarrow> (string + audit) \<times> trace" where
  "navigate pw url a3 tr3 =
     (case await_page pw url (Goto url 45000) a3 tr3 of
        (Inl msg, a4, tr4) \<Rightarrow> (Inl msg, tr4)
      | (Inr ok, a4, tr4) \<Rightarrow>
      (case await_page pw url (WaitForTimeout 2000) a4 tr4 of
        (Inl msg, a5, tr5) \<Rightarrow> (Inl msg, tr5)
      | (Inr ok, a5, tr5) \<Rightarrow> (Inr a5, tr5)))"

text \<open>Capture: the title, the screenshot and the first 3000 characters of the text.\<close>

definition capture :: "playwright \<Rightarrow> string \<Rightarrow> audit \<Rightarrow> trace \<Rightarrow> (string + audit) \<times> trace" where
  "capture pw url a5 tr5 =
     (case await_page pw url Title a5 tr5 of
        (Inl msg, a6, tr6) \<Rightarrow> (Inl msg, tr6)
      | (Inr t, a6, tr6) \<Rightarrow>
      (case await_page pw url Screenshot (a6\<lparr>title := t\<rparr>) tr6 of
        (Inl msg, a7, tr7) \<Rightarrow> (Inl msg, tr7)
      | (Inr buffer, a7, tr7) \<Rightarrow>
      (case await_page pw url Evaluate (a7\<lparr>screenshot := Some buffer\<rparr>) tr7 of
        (Inl msg, a8, tr8) \<Rightarrow> (Inl msg, tr8)
      | (Inr innerText, a8, tr8) \<Rightarrow>
          (Inr (a8\<lparr>htmlSnippet := take 3000 innerText\<rparr>), tr8))))"

definition audit_steps ::
  "playwright \<Rightarrow> string \<Rightarrow> json \<Rightarrow> trace \<Rightarrow> (string + audit) \<times> bool \<times> trace" where
  "audit_steps pw url deviceName tr0 =
     (let auditResults =
        \<lparr>consoleLogs = [], networkStatus = 0, screenshot = None, title = [], htmlSnippet = []\<rparr>
      in
      case open_page pw deviceName tr0 of
        (Inl msg, browser, tr3) \<Rightarrow> (Inl msg, browser, tr3)
      | (Inr page, browser, tr3) \<Rightarrow>
      (case navigate pw url auditResults tr3 of
        (Inl msg, tr5) \<Rightarrow> (Inl msg, browser, tr5)
      | (Inr a5, tr5) \<Rightarrow>
      (case capture pw url a5 tr5 of
        (Inl msg, tr8) \<Rightarrow> (Inl msg, browser, tr8)
      | (Inr a8, tr8) \<Rightarrow> (Inr a8, browser, tr8))))"

text \<open>
  The \<^verbatim>\<open>catch\<close> block: the browser is closed when the variable is assigned, then the
  wrapped error is thrown. When the closing itself throws, its error leaves the function
  and the wrapping \<^verbatim>\<open>throw\<close> is not reached. The record is lost on this path, so
  the page events that may still arrive during this closing are left out.
\<close>

definition catch_block :: "playwright \<Rightarrow> bool \<Rightarrow> string \<Rightarrow> trace \<Rightarrow> (error + audit) \<times> trace" where
  "catch_block pw browser cause tr =
     (if browser
      then (case call pw Close tr of
              (Inl msg, tr1) \<Rightarrow> (Inl (Error msg), tr1)
            | (Inr ok, tr1) \<Rightarrow> (Inl (AuditFailure cause), tr1))
      else (Inl (AuditFailure cause), tr))"

text \<open>
  \<^verbatim>\<open>executeAudit(url, deviceName)\<close>: the steps, then \<^verbatim>\<open>browser.close()\<close> and the
  return of the record, all inside the \<^verbatim>\<open>try\<close> block, so that an error thrown by this
  closing enters the \<^verbatim>\<open>catch\<close> block as well.
\<close>

definition executeAudit :: "playwright \<Rightarrow> string \<Rightarrow> json \<Rightarrow> trace \<Rightarrow> (error + audit) \<times> trace" where
  "executeAudit pw url deviceName tr =
     (case audit_steps pw url deviceName (tr @ [Console (RunningAudit url)]) of
        (Inl cause, browser, tr1) \<Rightarrow> catch_block pw browser cause tr1
      | (Inr a, browser, tr1) \<Rightarrow>
          (case await_page pw url Close a tr1 of
             (Inl cause, a2, tr2) \<Rightarrow> catch_block pw True cause tr2
           | (Inr ok, a2, tr2) \<Rightarrow> (Inr a2, tr2)))"

section \<open>The designer: the reference image and the comparison\<close>

text \<open>
  What \<^verbatim>\<open>fetch\<close> resolves to, as far as the program reads it: \<^verbatim>\<open>resp.json()\<close>, and
  \<^verbatim>\<open>Buffer.from(await resp.arrayBuffer()).toString('base64')\<close>, each the value or the
  message of the error thrown. The oracle answers a request from what has happened so far,
  the argument given to \<^verbatim>\<open>fetch\<close> and the headers.
\<close>

record response =
  json_body :: "string + json"
  base64_body :: "string + string"

type_synonym http = "trace \<Rightarrow> json \<Rightarrow> (string \<times> string) list \<Rightarrow> string + response"

text \<open>
  The \<^verbatim>\<open>try\<close> block of \<^verbatim>\<open>fetchFigmaImage\<close>. \<open>Inr None\<close> is the end of the block
  reached without a \<^verbatim>\<open>return\<close>.
\<close>

definition fetchFigmaImage_try :: "http \<Rightarrow> string \<Rightarrow> string \<Rightarrow> trace \<Rightarrow> (string + string option) \<times> trace" where
  "fetchFigmaImage_try net token fileKey tr =
     (let file_url = JStr (''https://api.figma.com/v1/files/'' @ fileKey);
          headers = [(''X-Figma-Token'', token)];
          tr1 = tr @ [Fetch file_url headers] in
      case net tr file_url headers of
        Inl msg \<Rightarrow> (Inl msg, tr1)
      | Inr resp \<Rightarrow>
      (case json_body resp of
        Inl msg \<Rightarrow> (Inl msg, tr1)
      | Inr data \<Rightarrow>
      (case get_property data ''thumbnailUrl'' of
        Inl e \<Rightarrow> (Inl (message e), tr1)
      | Inr None \<Rightarrow> (Inr None, tr1)
      | Inr (Some thumbnailUrl) \<Rightarrow>
          if truthy_json thumbnailUrl
          then (case net tr1 thumbnailUrl [] of
                  Inl msg \<Rightarrow> (Inl msg, tr1 @ [Fetch thumbnailUrl []])
                | Inr imgResp \<Rightarrow>
                    (case base64_body imgResp of
                       Inl msg \<Rightarrow> (Inl msg, tr1 @ [Fetch thumbnailUrl []])
                     | Inr b64 \<Rightarrow> (Inr (Some b64), tr1 @ [Fetch thumbnailUrl []])))
          else (Inr None, tr1))))"

text \<open>
  \<^verbatim>\<open>fetchFigmaImage(token, fileKey)\<close>: \<^verbatim>\<open>null\<close> at once when a credential is falsy;
  otherwise the block, whose errors are printed and followed by \<^verbatim>\<open>return null\<close>.
\<close>

definition fetchFigmaImage :: "http \<Rightarrow> string option \<Rightarrow> string option \<Rightarrow> trace \<Rightarrow> string option \<times> trace" where
  "fetchFigmaImage net token fileKey tr =
     (if \<not> truthy token \<or> \<not> truthy fileKey then (None, tr)
      else
        (case fetchFigmaImage_try net (interpolate token) (interpolate fileKey) (tr @ [Console FetchingFigma]) of
           (Inl msg, tr1) \<Rightarrow> (None, tr1 @ [Console (FigmaFetchError msg)])
         | (Inr img, tr1) \<Rightarrow> (img, tr1)))"

definition no_design :: string where
  "no_design = ''No Figma Design provided for comparison.''"

text \<open>
  \<^verbatim>\<open>compare(liveScreenshot, figmaScreenshot)\<close>: the fixed sentence when the reference is
  falsy, otherwise the result of one call of \<^verbatim>\<open>generate\<close> with the two image parts and
  no preferred model; nothing is caught.
\<close>

definition compare :: "genai \<Rightarrow> string option \<Rightarrow> string option \<Rightarrow> trace \<Rightarrow> (error + string) \<times> trace" where
  "compare ai liveScreenshot figmaScreenshot tr =
     (if \<not> truthy figmaScreenshot then (Inr no_design, tr)
      else
        generate ai DesignPrompt
          [InlineData liveScreenshot ''image/png'', InlineData figmaScreenshot ''image/png'']
          None (tr @ [Console ComparingDesign]))"

section \<open>The orchestrator\<close>

text \<open>
  The collaborators of a mission: the generative API, \<^verbatim>\<open>JSON.parse\<close>, the browser, the
  network, and the process-wide \<^verbatim>\<open>FIGMA_ACCESS_TOKEN\<close>.
\<close>

record world =
  genAI :: genai
  JSON_parse :: json_parser
  chromium :: playwright
  network :: http
  FIGMA_ACCESS_TOKEN :: "string option"

text \<open>Decimal digits of an array index, as a property key.\<close>

fun index_key :: "nat \<Rightarrow> string" where
  "index_key n =
     (if n < 10 then [char_of (48 + n)]
      else index_key (n div 10) @ [char_of (48 + n mod 10)])"

text \<open>
  \<^verbatim>\<open>{ ...v }\<close>: the own enumerable properties of the value. An object gives its
  properties, an array its elements and a string its characters under their indices,
  every other value nothing.
\<close>

fun spread :: "json \<Rightarrow> (string \<times> json) list" where
  "spread (JObj kvs) = kvs"
| "spread (JArr xs) = map (\<lambda>i. (index_key i, xs ! i)) [0..<length xs]"
| "spread (JStr s) = map (\<lambda>i. (index_key i, JStr [s ! i])) [0..<length s]"
| "spread v = []"

text \<open>
  A property written after the spread inside an object literal: an existing key keeps its
  place and takes the new value, a new key is added.
\<close>

fun set_property :: "string \<Rightarrow> json \<Rightarrow> (string \<times> json) list \<Rightarrow> (string \<times> json) list" where
  "set_property k v [] = [(k, v)]"
| "set_property k v ((k', v') # kvs) =
     (if k' = k then (k, v) # kvs else (k', v') # set_property k v kvs)"

definition figma_status :: "string option \<Rightarrow> string option \<Rightarrow> string" where
  "figma_status figmaImage figmaFile =
     (if truthy figmaImage then ''success''
      else if truthy figmaFile then ''failed'' else ''skipped'')"

text \<open>The object returned by a mission that reaches its end.\<close>

definition mission_result :: "json \<Rightarrow> string \<Rightarrow> string option \<Rightarrow> string option \<Rightarrow> (string \<times> json) list" where
  "mission_result finalJson shot figmaImage figmaFile =
     set_property ''figma_status'' (JStr (figma_status figmaImage figmaFile))
       (set_property ''screenshot_preview'' (JStr (take 50 shot @ ''...''))
          (spread finalJson))"

text \<open>
  \<^verbatim>\<open>startMission(config)\<close>, with the five fields of \<^verbatim>\<open>config\<close> as parameters. The
  audit, the plan, the reference image, the comparison and the final generation follow one
  another; an error of the audit, of the planner's template, of the comparison, of the
  final generation or of the final parse leaves the function.
\<close>

definition startMission ::
  "world \<Rightarrow> string \<Rightarrow> json \<Rightarrow> string option \<Rightarrow> string option \<Rightarrow> string option \<Rightarrow> trace
     \<Rightarrow> (error + (string \<times> json) list) \<times> trace" where
  "startMission w url device figmaToken figmaFile llmModel tr =
     (let figmaAuth = (if truthy figmaToken then figmaToken else FIGMA_ACCESS_TOKEN w) in
      case executeAudit (chromium w) url device tr of
        (Inl e, tr1) \<Rightarrow> (Inl e, tr1)
      | (Inr auditData, tr1) \<Rightarrow>
      (case createTestPlan (genAI w) (JSON_parse w) (htmlSnippet auditData) (screenshot auditData) device tr1 of
        (Inl e, tr2) \<Rightarrow> (Inl e, tr2)
      | (Inr plan, tr2) \<Rightarrow>
      (case fetchFigmaImage (network w) figmaAuth figmaFile tr2 of
        (figmaImage, tr3) \<Rightarrow>
      (case compare (genAI w) (screenshot auditData) figmaImage tr3 of
        (Inl e, tr4) \<Rightarrow> (Inl e, tr4)
      | (Inr designAnalysis, tr4) \<Rightarrow>
      (let finalReportPrompt =
             FinalReportPrompt plan (length (consoleLogs auditData)) (networkStatus auditData) designAnalysis;
           parts = [InlineData (screenshot auditData) ''image/png''] in
       case generate (genAI w) finalReportPrompt parts llmModel tr4 of
        (Inl e, tr5) \<Rightarrow> (Inl e, tr5)
      | (Inr finalJsonRaw, tr5) \<Rightarrow>
      (case JSON_parse w (strip_fences finalJsonRaw) of
        Inl e \<Rightarrow> (Inl e, tr5)
      | Inr finalJson \<Rightarrow>
      (case screenshot auditData of
        None \<Rightarrow> (Inl (Error ''Cannot read properties of null (reading substring)''), tr5)
      | Some shot \<Rightarrow> (Inr (mission_result finalJson shot figmaImage figmaFile), tr5))))))))"

text \<open>
  The handler of \<^verbatim>\<open>POST /api/start-test\<close>, for a body whose \<^verbatim>\<open>devices\<close> is an
  array or missing: the first element of the array or \<^verbatim>\<open>desktop\<close>, the mission, and
  the answer with status 200 and the result or with status 500 and the message of the
  error.
\<close>

datatype answer = Status200 "(string \<times> json) list" | Status500 string

definition start_test ::
  "world \<Rightarrow> string \<Rightarrow> json list option \<Rightarrow> string option \<Rightarrow> string option \<Rightarrow> string option \<Rightarrow> trace
     \<Rightarrow> answer \<times> trace" where
  "start_test w url devices figmaToken figmaFile llmModel tr =
     (let deviceToTest = (case devices of Some (d # ds) \<Rightarrow> d | _ \<Rightarrow> JStr ''desktop'') in
      case startMission w url deviceToTest figmaToken figmaFile llmModel
             (tr @ [Console (MissionStart url deviceToTest)]) of
        (Inr result, tr1) \<Rightarrow> (Status200 result, tr1)
      | (Inl e, tr1) \<Rightarrow> (Status500 (message e), tr1 @ [Console (MissionAborted e)]))"

section \<open>Reading traces, and oracles for concrete runs\<close>

text \<open>What one failed attempt leaves in the trace: the announcement, the request, the warning.\<close>

definition failed_attempt :: "prompt \<Rightarrow> part list \<Rightarrow> string \<Rightarrow> event list" where
  "failed_attempt p ps m = [Console (TryingModel m), GenerateContent m p ps, Console (ModelFailed m)]"

text \<open>Oracles for concrete runs: one that fails every request, one that answers every request.\<close>

definition always_failing :: genai where
  "always_failing n m p ps = None"

definition always_answering :: "string \<Rightarrow> genai" where
  "always_answering t n m p ps = Some t"

text \<open>An oracle that fails the first \<open>j\<close> requests and answers every later one.\<close>

definition answering_after :: "nat \<Rightarrow> string \<Rightarrow> genai" where
  "answering_after j t n m p ps = (if n < j then None else Some t)"

text \<open>The browser calls, the delivered page events and the HTTP requests of a trace.\<close>

fun browser_calls :: "trace \<Rightarrow> browser_call list" where
  "browser_calls [] = []"
| "browser_calls (Browser c # tr) = c # browser_calls tr"
| "browser_calls (e # tr) = browser_calls tr"

fun page_events_of :: "trace \<Rightarrow> page_event list" where
  "page_events_of [] = []"
| "page_events_of (Delivered ev # tr) = ev # page_events_of tr"
| "page_events_of (e # tr) = page_events_of tr"

definition fetches :: "trace \<Rightarrow> event list" where
  "fetches tr = filter is_Fetch tr"

text \<open>The generation requests of a trace whose prompt is of a given kind: model and parts.\<close>

fun is_ArchitectPrompt :: "prompt \<Rightarrow> bool" where
  "is_ArchitectPrompt (ArchitectPrompt d) = True"
| "is_ArchitectPrompt p = False"

fun is_DesignPrompt :: "prompt \<Rightarrow> bool" where
  "is_DesignPrompt DesignPrompt = True"
| "is_DesignPrompt p = False"

fun is_FinalReportPrompt :: "prompt \<Rightarrow> bool" where
  "is_FinalReportPrompt (FinalReportPrompt plan n st d) = True"
| "is_FinalReportPrompt p = False"

fun models_for :: "(prompt \<Rightarrow> bool) \<Rightarrow> trace \<Rightarrow> string list" where
  "models_for P [] = []"
| "models_for P (GenerateContent m p ps # tr) = (if P p then m # models_for P tr else models_for P tr)"
| "models_for P (e # tr) = models_for P tr"

fun parts_of :: "trace \<Rightarrow> part list list" where
  "parts_of [] = []"
| "parts_of (GenerateContent m p ps # tr) = ps # parts_of tr"
| "parts_of (e # tr) = parts_of tr"

text \<open>The statuses of the responses whose URL is exactly the given one, in order.\<close>

fun matching_statuses :: "string \<Rightarrow> page_event list \<Rightarrow> int list" where
  "matching_statuses url [] = []"
| "matching_statuses url (Response u st # evs) =
     (if u = url then st # matching_statuses url evs else matching_statuses url evs)"
| "matching_statuses url (ev # evs) = matching_statuses url evs"

text \<open>A parser that knows one document and rejects every other text.\<close>

definition parse_as :: "string \<Rightarrow> json \<Rightarrow> json_parser" where
  "parse_as doc v s = (if s = doc then Inr v else Inl (Error ''Unexpected token''))"

text \<open>The text \<^verbatim>\<open>{"test_plan":[]}\<close> and the value it decodes to.\<close>

definition plan_text :: string where
  "plan_text = ''{'' @ [CHR 0x22] @ ''test_plan'' @ [CHR 0x22] @ '':[]}''"

definition plan_value :: json where
  "plan_value = JObj [(''test_plan'', JArr [])]"

text \<open>
  Browsers for concrete runs, with the viewports of Playwright's table: one where every
  call returns and the response to the navigation to \<^verbatim>\<open>https://example.com\<close> is
  reported under the URL with a final slash; one whose navigation runs into the timeout;
  one whose navigation runs into the timeout and whose closing throws as well; and one
  where the address redirects, so that the page reports the redirect under the address
  of the navigation and then the page it leads to.
\<close>

definition example_url :: string where
  "example_url = ''https://example.com''"

definition timeout_message :: string where
  "timeout_message = ''page.goto: Timeout 45000ms exceeded.''"

definition calm_browser :: playwright where
  "calm_browser =
     \<lparr>reply = (\<lambda>tr c. if c = Title then Inr ''Example Domain''
                      else if c = Screenshot then Inr ''iVBORw0KGgo=''
                      else if c = Evaluate then Inr ''Example Domain. More information...''
                      else Inr []),
      emitted = (\<lambda>tr c. if c = Goto example_url 45000
                        then [Response ''https://example.com/'' 200,
                              ConsoleMessage ''warning'' ''deprecated'',
                              ConsoleMessage ''log'' ''ready'',
                              Response ''https://example.com/app.js'' 404]
                        else []),
      iPhone_12 = (390, 664),
      iPad_Pro_11 = (834, 1194)\<rparr>"

definition slow_browser :: playwright where
  "slow_browser =
     calm_browser\<lparr>reply := (\<lambda>tr c. if c = Goto example_url 45000 then Inl timeout_message else Inr [])\<rparr>"

definition broken_browser :: playwright where
  "broken_browser =
     calm_browser\<lparr>reply := (\<lambda>tr c. if c = Goto example_url 45000 then Inl timeout_message
                                   else if c = Close then Inl ''browser.close: Connection closed''
                                   else Inr [])\<rparr>"


text \<open>A network that refuses every request, and one that serves a file with a thumbnail.\<close>

definition offline :: http where
  "offline tr u hs = Inl ''fetch failed''"

definition figma_online :: http where
  "figma_online tr u hs =
     (if u = JStr ''https://api.figma.com/v1/files/KEY''
      then Inr \<lparr>json_body = Inr (JObj [(''thumbnailUrl'', JStr ''https://cdn/thumb.png'')]),
                base64_body = Inl ''not an image''\<rparr>
      else Inr \<lparr>json_body = Inl ''not JSON'', base64_body = Inr ''UE5H''\<rparr>)"

text \<open>The text \<^verbatim>\<open>{"status":"pass"}\<close>, the value it decodes to, and worlds built from the above.\<close>

definition report_text :: string where
  "report_text = ''{'' @ [CHR 0x22] @ ''status'' @ [CHR 0x22] @ '':'' @ [CHR 0x22] @ ''pass'' @ [CHR 0x22] @ ''}''"

definition report_value :: json where
  "report_value = JObj [(''status'', JStr ''pass'')]"

definition calm_world :: world where
  "calm_world =
     \<lparr>genAI = always_answering report_text,
      JSON_parse = parse_as report_text report_value,
      chromium = calm_browser,
      network = figma_online,
      FIGMA_ACCESS_TOKEN = None\<rparr>"

text \<open>The record and the trace of the audit of \<^verbatim>\<open>https://example.com\<close> in that world.\<close>

definition calm_record :: audit where
  "calm_record =
     \<lparr>consoleLogs = [''[warning] deprecated''], networkStatus = 0,
      screenshot = Some ''iVBORw0KGgo='', title = ''Example Domain'',
      htmlSnippet = ''Example Domain. More information...''\<rparr>"

definition calm_audit_trace :: trace where
  "calm_audit_trace =
     [Console (RunningAudit example_url), Browser Launch,
      Browser (NewContext (1920, 1080) False), Browser NewPage,
      Browser (Goto example_url 45000),
      Delivered (Response ''https://example.com/'' 200),
      Delivered (ConsoleMessage ''warning'' ''deprecated''),
      Delivered (ConsoleMessage ''log'' ''ready''),
      Delivered (Response ''https://example.com/app.js'' 404),
      Browser (WaitForTimeout 2000), Browser Title, Browser Screenshot,
      Browser Evaluate, Browser Close]"

definition slow_world :: world where
  "slow_world = calm_world\<lparr>chromium := slow_browser\<rparr>"

definition broken_world :: world where
  "broken_world = calm_world\<lparr>chromium := broken_browser\<rparr>"

text \<open>
  The browser calls of a complete audit before the closing, in order, and the status left
  by a sequence of page events: the last status reported under exactly the given URL, or
  the value before when there is none.
\<close>

definition setup_calls :: "playwright \<Rightarrow> json \<Rightarrow> browser_call list" where
  "setup_calls pw deviceName =
     [Launch, NewContext (fst (viewport_for pw deviceName)) (snd (viewport_for pw deviceName)),
      NewPage]"

definition planned_calls :: "playwright \<Rightarrow> string \<Rightarrow> json \<Rightarrow> browser_call list" where
  "planned_calls pw url deviceName =
     setup_calls pw deviceName @ [Goto url 45000, WaitForTimeout 2000] @ [Title, Screenshot, Evaluate]"

definition status_after :: "string \<Rightarrow> int \<Rightarrow> page_event list \<Rightarrow> int" where
  "status_after url s evs =
     (if matching_statuses url evs = [] then s else last (matching_statuses url evs))"

section \<open>Properties of the generation provider\<close>

lemma requests_append: "requests (a @ b) = requests a @ requests b"
  by (simp add: requests_def)

lemma models_of_append: "models_of (a @ b) = models_of a @ models_of b"
  by (induction a rule: models_of.induct) simp_all

lemma failures_of_append: "failures_of (a @ b) = failures_of a @ failures_of b"
  by (induction a rule: failures_of.induct) simp_all

lemma requests_failed_attempt: "length (requests (tr @ failed_attempt p ps m)) = Suc (length (requests tr))"
  by (simp add: requests_def failed_attempt_def)

lemma models_of_failed_attempts:
  "models_of (concat (map (failed_attempt p ps) ms)) = ms"
  by (induction ms) (simp_all add: failed_attempt_def)

lemma failures_of_failed_attempts:
  "failures_of (concat (map (failed_attempt p ps) ms)) = ms"
  by (induction ms) (simp_all add: failed_attempt_def)

lemma try_models_all_fail:
  "\<forall>i<length ms. ai (length (requests tr) + i) (ms ! i) p ps = None \<Longrightarrow>
   try_models ai p ps ms tr =
     (Inl ProviderExhausted, tr @ concat (map (failed_attempt p ps) ms))"
proof (induction ms arbitrary: tr)
  case Nil
  then show ?case by simp
next
  case (Cons m ms)
  have first: "ai (length (requests tr)) m p ps = None"
    using Cons.prems by force
  have later: "\<forall>i<length ms. ai (length (requests (tr @ failed_attempt p ps m)) + i) (ms ! i) p ps = None"
  proof (intro allI impI)
    fix i assume "i < length ms"
    then have "ai (length (requests tr) + Suc i) ((m # ms) ! Suc i) p ps = None"
      using Cons.prems by (metis Suc_less_eq length_Cons)
    then show "ai (length (requests (tr @ failed_attempt p ps m)) + i) (ms ! i) p ps = None"
      by (simp add: requests_failed_attempt)
  qed
  have "try_models ai p ps (m # ms) tr = try_models ai p ps ms (tr @ failed_attempt p ps m)"
    using first by (simp add: failed_attempt_def)
  also have "\<dots> = (Inl ProviderExhausted, (tr @ failed_attempt p ps m) @ concat (map (failed_attempt p ps) ms))"
    using Cons.IH [OF later] .
  finally show ?case by simp
qed

lemma try_models_first_success:
  "k < length ms \<Longrightarrow>
   \<forall>i<k. ai (length (requests tr) + i) (ms ! i) p ps = None \<Longrightarrow>
   ai (length (requests tr) + k) (ms ! k) p ps = Some t \<Longrightarrow>
   try_models ai p ps ms tr =
     (Inr t, tr @ concat (map (failed_attempt p ps) (take k ms))
               @ [Console (TryingModel (ms ! k)), GenerateContent (ms ! k) p ps])"
proof (induction ms arbitrary: tr k)
  case Nil
  then show ?case by simp
next
  case (Cons m ms)
  show ?case
  proof (cases k)
    case 0
    then show ?thesis using Cons.prems by simp
  next
    case (Suc j)
    have first: "ai (length (requests tr)) m p ps = None"
      using Cons.prems(2) Suc by force
    have j_lt: "j < length ms" using Cons.prems(1) Suc by simp
    have earlier: "\<forall>i<j. ai (length (requests (tr @ failed_attempt p ps m)) + i) (ms ! i) p ps = None"
    proof (intro allI impI)
      fix i assume "i < j"
      then have "ai (length (requests tr) + Suc i) ((m # ms) ! Suc i) p ps = None"
        using Cons.prems(2) Suc by (metis Suc_less_eq)
      then show "ai (length (requests (tr @ failed_attempt p ps m)) + i) (ms ! i) p ps = None"
        by (simp add: requests_failed_attempt)
    qed
    have hit: "ai (length (requests (tr @ failed_attempt p ps m)) + j) (ms ! j) p ps = Some t"
      using Cons.prems(3) Suc by (simp add: requests_failed_attempt)
    have "try_models ai p ps (m # ms) tr = try_models ai p ps ms (tr @ failed_attempt p ps m)"
      using first by (simp add: failed_attempt_def)
    also have "\<dots> = (Inr t, (tr @ failed_attempt p ps m) @ concat (map (failed_attempt p ps) (take j ms))
               @ [Console (TryingModel (ms ! j)), GenerateContent (ms ! j) p ps])"
      using Cons.IH [OF j_lt earlier hit] .
    finally show ?thesis using Suc by simp
  qed
qed

lemma modelsToTry_eq:
  "modelsToTry preferredModel =
     (case preferredModel of None \<Rightarrow> [] | Some m \<Rightarrow> if m = [] then [] else [m]) @ fallback_chain"
  by (simp add: modelsToTry_def filter_Boolean_def fallback_chain_def split: option.splits)

lemma distinct_fallback_chain: "distinct fallback_chain"
  by (simp add: fallback_chain_def)

lemma distinct_modelsToTry:
  "distinct (modelsToTry preferredModel) =
     (case preferredModel of None \<Rightarrow> True | Some m \<Rightarrow> m = [] \<or> m \<notin> set fallback_chain)"
  by (cases preferredModel) (auto simp: modelsToTry_eq distinct_fallback_chain)

text \<open>
  C1, as the specification states it, asks for a candidate list without duplicates. The
  source filters with \<^verbatim>\<open>Boolean\<close> only: a preferred model that is also a member of the
  chain stands twice in the list.
\<close>

theorem modelsToTry_keeps_duplicates:
  "modelsToTry (Some ''gemini-2.5-flash'') =
     [''gemini-2.5-flash'', ''gemini-2.5-flash'', ''gemini-2.0-flash-exp'',
      ''gemini-1.5-pro'', ''gemini-1.5-flash'']
   \<and> \<not> distinct (modelsToTry (Some ''gemini-2.5-flash''))"
  by (simp add: modelsToTry_def filter_Boolean_def)

text \<open>
  C1 (amended): the candidate list of \<^verbatim>\<open>generate\<close> is the preferred model, when it is
  given and not empty, followed by the four models of the fixed chain, with empty entries
  removed and duplicates kept. The candidates are attempted in the order of the list: when
  the candidate at index \<open>k\<close> is the first whose request succeeds, the call returns its
  text, the trace has grown by the failed attempts on the candidates before it, in order,
  and ends with the successful request, so that nothing is requested after the success.
\<close>

theorem generate_candidates_in_order:
  assumes "ms = modelsToTry preferredModel"
    and "k < length ms"
    and "\<forall>i<k. ai (length (requests tr) + i) (ms ! i) p ps = None"
    and "ai (length (requests tr) + k) (ms ! k) p ps = Some t"
  shows "ms = (case preferredModel of None \<Rightarrow> [] | Some m \<Rightarrow> if m = [] then [] else [m]) @ fallback_chain
       \<and> generate ai p ps preferredModel tr =
           (Inr t, tr @ concat (map (failed_attempt p ps) (take k ms))
                      @ [Console (TryingModel (ms ! k)), GenerateContent (ms ! k) p ps])"
proof
  show "ms = (case preferredModel of None \<Rightarrow> [] | Some m \<Rightarrow> if m = [] then [] else [m]) @ fallback_chain"
    using assms(1) by (simp add: modelsToTry_eq)
next
  have "try_models ai p ps ms tr =
          (Inr t, tr @ concat (map (failed_attempt p ps) (take k ms))
                     @ [Console (TryingModel (ms ! k)), GenerateContent (ms ! k) p ps])"
    using assms(2,3,4) by (rule try_models_first_success)
  then show "generate ai p ps preferredModel tr =
           (Inr t, tr @ concat (map (failed_attempt p ps) (take k ms))
                      @ [Console (TryingModel (ms ! k)), GenerateContent (ms ! k) p ps])"
    using assms(1) by (simp add: generate_def)
qed

theorem generate_candidates_in_order_witness:
  "answering_after 2 ''ok'' 0 ''gemini-2.5-flash'' DesignPrompt [] = None
   \<and> answering_after 2 ''ok'' 1 ''gemini-2.5-flash'' DesignPrompt [] = None
   \<and> answering_after 2 ''ok'' 2 ''gemini-2.0-flash-exp'' DesignPrompt [] = Some ''ok''
   \<and> generate (answering_after 2 ''ok'') DesignPrompt [] (Some ''gemini-2.5-flash'') [] =
       (Inr ''ok'',
        [Console (TryingModel ''gemini-2.5-flash''),
         GenerateContent ''gemini-2.5-flash'' DesignPrompt [],
         Console (ModelFailed ''gemini-2.5-flash''),
         Console (TryingModel ''gemini-2.5-flash''),
         GenerateContent ''gemini-2.5-flash'' DesignPrompt [],
         Console (ModelFailed ''gemini-2.5-flash''),
         Console (TryingModel ''gemini-2.0-flash-exp''),
         GenerateContent ''gemini-2.0-flash-exp'' DesignPrompt []])"
proof -
  let ?ms = "modelsToTry (Some ''gemini-2.5-flash'')"
  have ms: "?ms = [''gemini-2.5-flash'', ''gemini-2.5-flash'', ''gemini-2.0-flash-exp'',
      ''gemini-1.5-pro'', ''gemini-1.5-flash'']"
    by (simp add: modelsToTry_def filter_Boolean_def)
  have k: "2 < length ?ms" by (simp add: ms)
  have before: "\<forall>i<2. answering_after 2 ''ok'' (length (requests []) + i) (?ms ! i) DesignPrompt [] = None"
    by (simp add: answering_after_def requests_def)
  have hit: "answering_after 2 ''ok'' (length (requests []) + 2) (?ms ! 2) DesignPrompt [] = Some ''ok''"
    by (simp add: answering_after_def requests_def)
  have take2: "take 2 ?ms = [''gemini-2.5-flash'', ''gemini-2.5-flash'']"
    by (simp add: ms)
  have nth2: "?ms ! 2 = ''gemini-2.0-flash-exp''"
    by (simp add: ms)
  show ?thesis
    using generate_candidates_in_order
            [where ms = "?ms" and preferredModel = "Some ''gemini-2.5-flash''" and k = 2
               and ai = "answering_after 2 ''ok''" and tr = "[]" and p = DesignPrompt
               and ps = "[]" and t = "''ok''", OF refl k before hit]
    by (simp add: take2 nth2 failed_attempt_def answering_after_def)
qed

text \<open>
  C2, as the specification states it, says that no failed candidate is tried again. With
  the preferred model \<^verbatim>\<open>gemini-2.5-flash\<close> and an API that fails every request, the
  same model is requested, fails, and is requested a second time.
\<close>

theorem generate_retries_duplicate_model:
  "take 5 (snd (generate always_failing DesignPrompt [] (Some ''gemini-2.5-flash'') [])) =
     [Console (TryingModel ''gemini-2.5-flash''),
      GenerateContent ''gemini-2.5-flash'' DesignPrompt [],
      Console (ModelFailed ''gemini-2.5-flash''),
      Console (TryingModel ''gemini-2.5-flash''),
      GenerateContent ''gemini-2.5-flash'' DesignPrompt []]
   \<and> \<not> distinct (models_of (snd (generate always_failing DesignPrompt [] (Some ''gemini-2.5-flash'') [])))"
  by (simp add: generate_def modelsToTry_def filter_Boolean_def always_failing_def requests_def)

lemma try_models_attempts:
  "\<exists>j\<le>length ms. models_of (snd (try_models ai p ps ms tr)) = models_of tr @ take j ms"
proof (induction ms arbitrary: tr)
  case Nil
  show ?case by simp
next
  case (Cons m ms)
  show ?case
  proof (cases "ai (length (requests tr)) m p ps")
    case (Some t)
    have "Suc 0 \<le> length (m # ms)
        \<and> models_of (snd (try_models ai p ps (m # ms) tr)) = models_of tr @ take (Suc 0) (m # ms)"
      using Some by (simp add: models_of_append)
    then show ?thesis by blast
  next
    case None
    let ?tr = "tr @ failed_attempt p ps m"
    have step: "try_models ai p ps (m # ms) tr = try_models ai p ps ms ?tr"
      using None by (simp add: failed_attempt_def)
    obtain j where j: "j \<le> length ms"
        "models_of (snd (try_models ai p ps ms ?tr)) = models_of ?tr @ take j ms"
      using Cons.IH [of ?tr] by blast
    have "Suc j \<le> length (m # ms)
        \<and> models_of (snd (try_models ai p ps (m # ms) tr)) = models_of tr @ take (Suc j) (m # ms)"
      using j unfolding step by (simp add: models_of_append failed_attempt_def)
    then show ?thesis by blast
  qed
qed

text \<open>
  C2 (amended): for a call of \<^verbatim>\<open>generate\<close> whose candidate list has \<open>N\<close> entries, when
  no request succeeds the call fails with the error "All AI agents failed to respond."
  after exactly \<open>N\<close> requests, one per entry; when the \<open>k\<close>-th entry is the first to
  succeed, exactly \<open>k\<close> requests are made, to the first \<open>k\<close> entries in order, and a
  warning is printed for each of the first \<open>k - 1\<close>. In every run the requests go to an
  initial part of the list, so that no entry of the list is requested twice; and unless
  the preferred model is a member of the fixed chain, no model is requested twice.
\<close>

theorem generate_attempt_count:
  assumes "ms = modelsToTry preferredModel" and "n = length (requests tr)"
  shows "((\<forall>i<length ms. ai (n + i) (ms ! i) p ps = None) \<longrightarrow>
            fst (generate ai p ps preferredModel tr) = Inl ProviderExhausted
          \<and> models_of (snd (generate ai p ps preferredModel tr)) = models_of tr @ ms
          \<and> failures_of (snd (generate ai p ps preferredModel tr)) = failures_of tr @ ms)
       \<and> (\<forall>k t. 1 \<le> k \<and> k \<le> length ms
                \<and> (\<forall>i<k - 1. ai (n + i) (ms ! i) p ps = None)
                \<and> ai (n + (k - 1)) (ms ! (k - 1)) p ps = Some t \<longrightarrow>
            fst (generate ai p ps preferredModel tr) = Inr t
          \<and> models_of (snd (generate ai p ps preferredModel tr)) = models_of tr @ take k ms
          \<and> length (take k ms) = k
          \<and> failures_of (snd (generate ai p ps preferredModel tr)) = failures_of tr @ take (k - 1) ms)
       \<and> length ms = length (filter truthy [preferredModel]) + 4
       \<and> (\<exists>j\<le>length ms.
              models_of (snd (generate ai p ps preferredModel tr)) = models_of tr @ take j ms
            \<and> (\<not> (truthy preferredModel \<and> interpolate preferredModel \<in> set fallback_chain) \<longrightarrow>
                 distinct (take j ms)))"
proof (intro conjI allI impI)
  assume "\<forall>i<length ms. ai (n + i) (ms ! i) p ps = None"
  then have run: "generate ai p ps preferredModel tr =
      (Inl ProviderExhausted, tr @ concat (map (failed_attempt p ps) ms))"
    using assms try_models_all_fail [of ms ai tr p ps] by (simp add: generate_def)
  show "fst (generate ai p ps preferredModel tr) = Inl ProviderExhausted"
    by (simp add: run)
  show "models_of (snd (generate ai p ps preferredModel tr)) = models_of tr @ ms"
    by (simp add: run models_of_append models_of_failed_attempts)
  show "failures_of (snd (generate ai p ps preferredModel tr)) = failures_of tr @ ms"
    by (simp add: run failures_of_append failures_of_failed_attempts)
next
  fix k t
  assume h: "1 \<le> k \<and> k \<le> length ms
                \<and> (\<forall>i<k - 1. ai (n + i) (ms ! i) p ps = None)
                \<and> ai (n + (k - 1)) (ms ! (k - 1)) p ps = Some t"
  then obtain j where j: "k = Suc j" by (cases k) auto
  have "try_models ai p ps ms tr =
      (Inr t, tr @ concat (map (failed_attempt p ps) (take j ms))
                 @ [Console (TryingModel (ms ! j)), GenerateContent (ms ! j) p ps])"
    using h j assms(2) by (intro try_models_first_success) auto
  then have run: "generate ai p ps preferredModel tr =
      (Inr t, tr @ concat (map (failed_attempt p ps) (take j ms))
                 @ [Console (TryingModel (ms ! j)), GenerateContent (ms ! j) p ps])"
    using assms(1) by (simp add: generate_def)
  have j_lt: "j < length ms" using h j by simp
  show "fst (generate ai p ps preferredModel tr) = Inr t"
    by (simp add: run)
  show "models_of (snd (generate ai p ps preferredModel tr)) = models_of tr @ take k ms"
    using j_lt by (simp add: run j models_of_append models_of_failed_attempts take_Suc_conv_app_nth)
  show "length (take k ms) = k"
    using h by simp
  show "failures_of (snd (generate ai p ps preferredModel tr)) = failures_of tr @ take (k - 1) ms"
    by (simp add: run j failures_of_append failures_of_failed_attempts)
next
  show "length ms = length (filter truthy [preferredModel]) + 4"
    using assms(1) by (simp add: modelsToTry_eq fallback_chain_def truthy_def split: option.splits)
next
  obtain j where j: "j \<le> length ms"
      "models_of (snd (generate ai p ps preferredModel tr)) = models_of tr @ take j ms"
    using try_models_attempts [of ms ai p ps tr] assms(1) by (auto simp: generate_def)
  have "\<not> (truthy preferredModel \<and> interpolate preferredModel \<in> set fallback_chain) \<longrightarrow>
                 distinct (take j ms)"
  proof
    assume "\<not> (truthy preferredModel \<and> interpolate preferredModel \<in> set fallback_chain)"
    then have "distinct ms"
      using assms(1) by (cases preferredModel) (auto simp: distinct_modelsToTry truthy_def interpolate_def)
    then show "distinct (take j ms)"
      by (rule distinct_take)
  qed
  with j show "\<exists>j\<le>length ms.
              models_of (snd (generate ai p ps preferredModel tr)) = models_of tr @ take j ms
            \<and> (\<not> (truthy preferredModel \<and> interpolate preferredModel \<in> set fallback_chain) \<longrightarrow>
                 distinct (take j ms))"
    by blast
qed

theorem generate_attempt_count_witness:
  "(always_failing 0 ''gemini-2.5-flash'' DesignPrompt [] = None
    \<and> always_failing 3 ''gemini-1.5-flash'' DesignPrompt [] = None
    \<and> fst (generate always_failing DesignPrompt [] None []) = Inl ProviderExhausted
    \<and> models_of (snd (generate always_failing DesignPrompt [] None [])) = fallback_chain
    \<and> failures_of (snd (generate always_failing DesignPrompt [] None [])) = fallback_chain
    \<and> length (modelsToTry None) = 4)
   \<and> (answering_after 1 ''ok'' 0 ''fast'' DesignPrompt [] = None
    \<and> answering_after 1 ''ok'' 1 ''gemini-2.5-flash'' DesignPrompt [] = Some ''ok''
    \<and> fst (generate (answering_after 1 ''ok'') DesignPrompt [] (Some ''fast'') []) = Inr ''ok''
    \<and> models_of (snd (generate (answering_after 1 ''ok'') DesignPrompt [] (Some ''fast'') []))
         = [''fast'', ''gemini-2.5-flash'']
    \<and> failures_of (snd (generate (answering_after 1 ''ok'') DesignPrompt [] (Some ''fast'') []))
         = [''fast'']
    \<and> distinct (modelsToTry (Some ''fast'')))"
proof
  have none: "modelsToTry None = fallback_chain"
    by (simp add: modelsToTry_eq)
  have fails: "\<forall>i<length (modelsToTry None).
      always_failing (length (requests []) + i) (modelsToTry None ! i) DesignPrompt [] = None"
    by (simp add: always_failing_def)
  note all_fail = generate_attempt_count
            [where ms = "modelsToTry None" and preferredModel = None and tr = "[]"
               and ai = always_failing and p = DesignPrompt and ps = "[]",
             OF refl refl, THEN conjunct1, THEN mp, OF fails]
  note size = generate_attempt_count
            [where ms = "modelsToTry None" and preferredModel = None and tr = "[]"
               and ai = always_failing and p = DesignPrompt and ps = "[]",
             OF refl refl, THEN conjunct2, THEN conjunct2, THEN conjunct1]
  show "always_failing 0 ''gemini-2.5-flash'' DesignPrompt [] = None
    \<and> always_failing 3 ''gemini-1.5-flash'' DesignPrompt [] = None
    \<and> fst (generate always_failing DesignPrompt [] None []) = Inl ProviderExhausted
    \<and> models_of (snd (generate always_failing DesignPrompt [] None [])) = fallback_chain
    \<and> failures_of (snd (generate always_failing DesignPrompt [] None [])) = fallback_chain
    \<and> length (modelsToTry None) = 4"
    using all_fail size by (simp add: none always_failing_def truthy_def)
next
  let ?ms = "modelsToTry (Some ''fast'')"
  have ms: "?ms = ''fast'' # fallback_chain"
    by (simp add: modelsToTry_eq)
  have pre: "1 \<le> (2::nat) \<and> 2 \<le> length ?ms
       \<and> (\<forall>i<2 - 1. answering_after 1 ''ok'' (length (requests []) + i) (?ms ! i) DesignPrompt [] = None)
       \<and> answering_after 1 ''ok'' (length (requests []) + (2 - 1)) (?ms ! (2 - 1)) DesignPrompt [] = Some ''ok''"
    by (simp add: ms answering_after_def fallback_chain_def requests_def)
  have tk: "take 2 ?ms = [''fast'', ''gemini-2.5-flash'']" "take (2 - 1) ?ms = [''fast'']"
    "take (Suc 0) ?ms = [''fast'']"
    by (simp_all add: ms fallback_chain_def)
  note second = generate_attempt_count
            [where ms = "?ms" and preferredModel = "Some ''fast''" and tr = "[]"
               and ai = "answering_after 1 ''ok''" and p = DesignPrompt and ps = "[]",
             OF refl refl, THEN conjunct2, THEN conjunct1, THEN spec, THEN spec, THEN mp, OF pre]
  show "answering_after 1 ''ok'' 0 ''fast'' DesignPrompt [] = None
    \<and> answering_after 1 ''ok'' 1 ''gemini-2.5-flash'' DesignPrompt [] = Some ''ok''
    \<and> fst (generate (answering_after 1 ''ok'') DesignPrompt [] (Some ''fast'') []) = Inr ''ok''
    \<and> models_of (snd (generate (answering_after 1 ''ok'') DesignPrompt [] (Some ''fast'') []))
         = [''fast'', ''gemini-2.5-flash'']
    \<and> failures_of (snd (generate (answering_after 1 ''ok'') DesignPrompt [] (Some ''fast'') []))
         = [''fast'']
    \<and> distinct (modelsToTry (Some ''fast''))"
    using second by (simp add: tk answering_after_def distinct_modelsToTry fallback_chain_def)
qed


section \<open>Properties of the architect\<close>

lemma strip_fences_plain:
  "strip_fences ''{}'' = ''{}''"
  by (simp add: strip_fences_def trim_def is_space_def fence_def fence_json_def)

lemma strip_fences_plan_text:
  "strip_fences (fence_json @ [CHR 0x0A] @ plan_text @ [CHR 0x0A] @ fence) = plan_text"
  by (simp add: strip_fences_def trim_def is_space_def fence_def fence_json_def plan_text_def)

text \<open>
  C3, as the specification states it, promises the fallback plan whenever the answer does
  not have the expected shape. The answer \<^verbatim>\<open>{}\<close> is valid JSON without a
  \<^verbatim>\<open>test_plan\<close>: nothing is thrown, and the result is \<^verbatim>\<open>undefined\<close>, neither the
  fallback plan nor an array.
\<close>

theorem createTestPlan_undefined_plan:
  "fst (createTestPlan (always_answering ''{}'') (parse_as ''{}'' (JObj [])) ''Example''
          (Some ''iVBORw0KGgo='') (JStr ''desktop'') []) = Inr None
   \<and> fst (createTestPlan (always_answering ''{}'') (parse_as ''{}'' (JObj [])) ''Example''
          (Some ''iVBORw0KGgo='') (JStr ''desktop'') []) \<noteq> Inr (Some fallback_plan)"
  by (simp add: createTestPlan_def createTestPlan_try_def generate_def modelsToTry_def
      filter_Boolean_def always_answering_def parse_as_def strip_fences_plain)

text \<open>
  C3 (amended): for every input to \<^verbatim>\<open>createTestPlan\<close> whose device is a string, the
  call returns and does not propagate an error. It returns exactly the one-element
  fallback plan when the generation call fails, when the fence-stripped answer is rejected
  by \<^verbatim>\<open>JSON.parse\<close>, and when the answer decodes to \<^verbatim>\<open>null\<close>. In every other case
  it returns the \<^verbatim>\<open>test_plan\<close> property of the decoded value as it is: the value
  stored under that key when the answer is an object that has it, and \<^verbatim>\<open>undefined\<close>
  when the object has no such key or the answer is not an object.
\<close>

theorem createTestPlan_result:
  assumes "device = JStr d"
    and "g = fst (generate ai (ArchitectPrompt d) [InlineData shot ''image/png''] None
                      (tr @ [Console CreatingTestPlan]))"
    and "r = fst (createTestPlan ai parser snippet shot device tr)"
  shows "(\<exists>plan. r = Inr plan)
       \<and> (\<forall>e. g = Inl e \<longrightarrow> r = Inr (Some fallback_plan))
       \<and> (\<forall>rawText e. g = Inr rawText \<and> parser (strip_fences rawText) = Inl e \<longrightarrow>
             r = Inr (Some fallback_plan))
       \<and> (\<forall>rawText. g = Inr rawText \<and> parser (strip_fences rawText) = Inr JNull \<longrightarrow>
             r = Inr (Some fallback_plan))
       \<and> (\<forall>rawText kvs. g = Inr rawText \<and> parser (strip_fences rawText) = Inr (JObj kvs) \<longrightarrow>
             r = Inr (map_of kvs ''test_plan''))
       \<and> (\<forall>rawText v. g = Inr rawText \<and> parser (strip_fences rawText) = Inr v
             \<and> v \<noteq> JNull \<and> (\<forall>kvs. v \<noteq> JObj kvs) \<longrightarrow> r = Inr None)"
proof -
  obtain x tr1 where run: "generate ai (ArchitectPrompt d) [InlineData shot ''image/png''] None
                      (tr @ [Console CreatingTestPlan]) = (x, tr1)"
    by (cases "generate ai (ArchitectPrompt d) [InlineData shot ''image/png''] None
                      (tr @ [Console CreatingTestPlan])") auto
  have g: "g = x" using assms(2) run by simp
  have other: "get_property v ''test_plan'' = Inr None" if "v \<noteq> JNull" "\<forall>kvs. v \<noteq> JObj kvs" for v
    using that by (cases v) auto
  show ?thesis
    unfolding assms(3) assms(1) g
    by (auto simp: createTestPlan_def createTestPlan_try_def run other split: sum.splits)
qed

theorem createTestPlan_result_witness:
  "fst (generate (always_answering (fence_json @ [CHR 0x0A] @ plan_text @ [CHR 0x0A] @ fence))
          (ArchitectPrompt ''desktop'') [InlineData (Some ''iVBORw0KGgo='') ''image/png''] None
          ([] @ [Console CreatingTestPlan]))
     = Inr (fence_json @ [CHR 0x0A] @ plan_text @ [CHR 0x0A] @ fence)
   \<and> parse_as plan_text plan_value
        (strip_fences (fence_json @ [CHR 0x0A] @ plan_text @ [CHR 0x0A] @ fence))
     = Inr (JObj [(''test_plan'', JArr [])])
   \<and> fst (createTestPlan (always_answering (fence_json @ [CHR 0x0A] @ plan_text @ [CHR 0x0A] @ fence))
            (parse_as plan_text plan_value) ''Example'' (Some ''iVBORw0KGgo='') (JStr ''desktop'') [])
     = Inr (Some (JArr []))
   \<and> fst (createTestPlan always_failing (parse_as plan_text plan_value) ''Example''
            (Some ''iVBORw0KGgo='') (JStr ''desktop'') [])
     = Inr (Some fallback_plan)"
proof -
  let ?raw = "fence_json @ [CHR 0x0A] @ plan_text @ [CHR 0x0A] @ fence"
  have g: "fst (generate (always_answering ?raw)
          (ArchitectPrompt ''desktop'') [InlineData (Some ''iVBORw0KGgo='') ''image/png''] None
          ([] @ [Console CreatingTestPlan])) = Inr ?raw"
    by (simp add: generate_def modelsToTry_def filter_Boolean_def always_answering_def)
  have p: "parse_as plan_text plan_value (strip_fences ?raw) = Inr (JObj [(''test_plan'', JArr [])])"
    by (simp only: strip_fences_plan_text) (simp add: parse_as_def plan_value_def)
  have f: "fst (generate always_failing
          (ArchitectPrompt ''desktop'') [InlineData (Some ''iVBORw0KGgo='') ''image/png''] None
          ([] @ [Console CreatingTestPlan])) = Inl ProviderExhausted"
    by (simp add: generate_def modelsToTry_def filter_Boolean_def always_failing_def)
  note good = createTestPlan_result
      [where ai = "always_answering ?raw" and parser = "parse_as plan_text plan_value"
         and snippet = "''Example''" and shot = "Some ''iVBORw0KGgo=''" and d = "''desktop''"
         and tr = "[]", OF refl refl refl, THEN conjunct2, THEN conjunct2, THEN conjunct2,
       THEN conjunct2, THEN conjunct1, THEN spec, THEN spec, THEN mp, OF conjI, OF g p]
  note bad = createTestPlan_result
      [where ai = always_failing and parser = "parse_as plan_text plan_value"
         and snippet = "''Example''" and shot = "Some ''iVBORw0KGgo=''" and d = "''desktop''"
         and tr = "[]", OF refl refl refl, THEN conjunct2, THEN conjunct1, THEN spec, THEN mp, OF f]
  show ?thesis using g p good bad by simp
qed

text \<open>
  A device that is not a string makes the template of the prompt throw before the
  \<^verbatim>\<open>try\<close> block is entered: the error leaves \<^verbatim>\<open>createTestPlan\<close>, and no
  generation request has been made.
\<close>

lemma createTestPlan_device_not_string:
  assumes "\<forall>s. device \<noteq> JStr s"
  shows "\<exists>e. createTestPlan ai parser snippet shot device tr = (Inl e, tr @ [Console CreatingTestPlan])"
  using assms by (cases device) (simp_all add: createTestPlan_def)

lemma createTestPlan_number_device:
  "createTestPlan ai parser snippet shot (JNum 7) [] =
     (Inl (Error ''device.toUpperCase is not a function''), [Console CreatingTestPlan])"
  by (simp add: createTestPlan_def)


section \<open>Reading a trace that grows\<close>

lemma browser_calls_append: "browser_calls (a @ b) = browser_calls a @ browser_calls b"
  by (induction a rule: browser_calls.induct) simp_all

lemma page_events_of_append: "page_events_of (a @ b) = page_events_of a @ page_events_of b"
  by (induction a rule: page_events_of.induct) simp_all

lemma fetches_append: "fetches (a @ b) = fetches a @ fetches b"
  by (simp add: fetches_def)

lemma parts_of_append: "parts_of (a @ b) = parts_of a @ parts_of b"
  by (induction a rule: parts_of.induct) simp_all

lemma models_for_append: "models_for P (a @ b) = models_for P a @ models_for P b"
  by (induction P a rule: models_for.induct) simp_all

lemma page_events_of_Delivered: "page_events_of (map Delivered evs) = evs"
  by (induction evs) simp_all

lemma browser_calls_Delivered: "browser_calls (map Delivered evs) = []"
  by (induction evs) simp_all

lemma requests_Delivered: "requests (map Delivered evs) = []"
  by (induction evs) (simp_all add: requests_def)

lemma fetches_Delivered: "fetches (map Delivered evs) = []"
  by (induction evs) (simp_all add: fetches_def)

text \<open>
  What a run of the loop adds to the trace: requests to the first \<open>k\<close> candidates, each
  with the same prompt and parts, and nothing that touches the browser or the network.
\<close>

lemma try_models_trace:
  "\<exists>k new. k \<le> length ms \<and> (ms = [] \<or> 0 < k)
     \<and> snd (try_models ai p ps ms tr) = tr @ new
     \<and> models_of new = take k ms
     \<and> parts_of new = replicate k ps
     \<and> (\<forall>P. models_for P new = (if P p then take k ms else []))
     \<and> browser_calls new = [] \<and> fetches new = [] \<and> page_events_of new = []
     \<and> (fst (try_models ai p ps ms tr) = Inl ProviderExhausted \<and> k = length ms
          \<or> (\<exists>t. fst (try_models ai p ps ms tr) = Inr t))"
proof (induction ms arbitrary: tr)
  case Nil
  show ?case by (simp add: fetches_def)
next
  case (Cons m ms)
  show ?case
  proof (cases "ai (length (requests tr)) m p ps")
    case (Some t)
    let ?new = "[Console (TryingModel m), GenerateContent m p ps]"
    have "Suc 0 \<le> length (m # ms) \<and> (m # ms = [] \<or> 0 < Suc 0)
     \<and> snd (try_models ai p ps (m # ms) tr) = tr @ ?new
     \<and> models_of ?new = take (Suc 0) (m # ms)
     \<and> parts_of ?new = replicate (Suc 0) ps
     \<and> (\<forall>P. models_for P ?new = (if P p then take (Suc 0) (m # ms) else []))
     \<and> browser_calls ?new = [] \<and> fetches ?new = [] \<and> page_events_of ?new = []
     \<and> (fst (try_models ai p ps (m # ms) tr) = Inl ProviderExhausted \<and> Suc 0 = length (m # ms)
          \<or> (\<exists>t. fst (try_models ai p ps (m # ms) tr) = Inr t))"
      using Some by (simp add: fetches_def)
    then show ?thesis by blast
  next
    case None
    let ?tr = "tr @ failed_attempt p ps m"
    have step: "try_models ai p ps (m # ms) tr = try_models ai p ps ms ?tr"
      using None by (simp add: failed_attempt_def)
    obtain k new where kn: "k \<le> length ms" "ms = [] \<or> 0 < k"
        "snd (try_models ai p ps ms ?tr) = ?tr @ new"
        "models_of new = take k ms" "parts_of new = replicate k ps"
        "\<forall>P. models_for P new = (if P p then take k ms else [])"
        "browser_calls new = []" "fetches new = []" "page_events_of new = []"
        "fst (try_models ai p ps ms ?tr) = Inl ProviderExhausted \<and> k = length ms
          \<or> (\<exists>t. fst (try_models ai p ps ms ?tr) = Inr t)"
      using Cons.IH [of ?tr] by blast
    let ?new = "failed_attempt p ps m @ new"
    have "Suc k \<le> length (m # ms) \<and> (m # ms = [] \<or> 0 < Suc k)
     \<and> snd (try_models ai p ps (m # ms) tr) = tr @ ?new
     \<and> models_of ?new = take (Suc k) (m # ms)
     \<and> parts_of ?new = replicate (Suc k) ps
     \<and> (\<forall>P. models_for P ?new = (if P p then take (Suc k) (m # ms) else []))
     \<and> browser_calls ?new = [] \<and> fetches ?new = [] \<and> page_events_of ?new = []
     \<and> (fst (try_models ai p ps (m # ms) tr) = Inl ProviderExhausted \<and> Suc k = length (m # ms)
          \<or> (\<exists>t. fst (try_models ai p ps (m # ms) tr) = Inr t))"
      using kn unfolding step
      by (simp add: failed_attempt_def fetches_def)
    then show ?thesis by blast
  qed
qed

lemma generate_trace:
  obtains k new where "0 < k" "k \<le> length (modelsToTry pref)"
     "snd (generate ai p ps pref tr) = tr @ new"
     "models_of new = take k (modelsToTry pref)"
     "parts_of new = replicate k ps"
     "\<And>P. models_for P new = (if P p then take k (modelsToTry pref) else [])"
     "browser_calls new = []" "fetches new = []" "page_events_of new = []"
     "fst (generate ai p ps pref tr) = Inl ProviderExhausted \<and> k = length (modelsToTry pref)
          \<or> (\<exists>t. fst (generate ai p ps pref tr) = Inr t)"
proof -
  have ne: "modelsToTry pref \<noteq> []"
    by (simp add: modelsToTry_eq fallback_chain_def)
  from try_models_trace [of "modelsToTry pref" ai p ps tr] ne
  show ?thesis unfolding generate_def [symmetric] using that by blast
qed


section \<open>Properties of the designer\<close>

text \<open>
  C4: \<^verbatim>\<open>fetchFigmaImage\<close> returns \<^verbatim>\<open>null\<close> at once, with the trace unchanged and so
  without any request, when the token or the file key is missing (unset or empty). With
  both present, every error of the retrieval is caught, printed and answered with
  \<^verbatim>\<open>null\<close>: a failing request for the file, a body that is not JSON, a body that is
  \<^verbatim>\<open>null\<close>, a failing request for the thumbnail, and a thumbnail whose bytes cannot be
  read. The function has no failing outcome.
\<close>

theorem fetchFigmaImage_absent:
  assumes "r = fetchFigmaImage net token fileKey tr"
    and "tr0 = tr @ [Console FetchingFigma]"
    and "file_url = JStr (''https://api.figma.com/v1/files/'' @ interpolate fileKey)"
    and "hs = [(''X-Figma-Token'', interpolate token)]"
  shows "(\<not> truthy token \<or> \<not> truthy fileKey \<longrightarrow> r = (None, tr))
       \<and> (truthy token \<and> truthy fileKey \<longrightarrow>
            (\<forall>msg. net tr0 file_url hs = Inl msg \<longrightarrow>
                r = (None, tr0 @ [Fetch file_url hs, Console (FigmaFetchError msg)]))
          \<and> (\<forall>resp msg. net tr0 file_url hs = Inr resp \<and> json_body resp = Inl msg \<longrightarrow>
                r = (None, tr0 @ [Fetch file_url hs, Console (FigmaFetchError msg)]))
          \<and> (\<forall>resp. net tr0 file_url hs = Inr resp \<and> json_body resp = Inr JNull \<longrightarrow>
                fst r = None \<and> fetches (snd r) = fetches tr @ [Fetch file_url hs])
          \<and> (\<forall>resp v thumb msg. net tr0 file_url hs = Inr resp \<and> json_body resp = Inr v
                \<and> get_property v ''thumbnailUrl'' = Inr (Some thumb) \<and> truthy_json thumb
                \<and> net (tr0 @ [Fetch file_url hs]) thumb [] = Inl msg \<longrightarrow>
                r = (None, tr0 @ [Fetch file_url hs, Fetch thumb [], Console (FigmaFetchError msg)]))
          \<and> (\<forall>resp v thumb imgResp msg. net tr0 file_url hs = Inr resp \<and> json_body resp = Inr v
                \<and> get_property v ''thumbnailUrl'' = Inr (Some thumb) \<and> truthy_json thumb
                \<and> net (tr0 @ [Fetch file_url hs]) thumb [] = Inr imgResp
                \<and> base64_body imgResp = Inl msg \<longrightarrow>
                r = (None, tr0 @ [Fetch file_url hs, Fetch thumb [], Console (FigmaFetchError msg)])))"
proof (intro conjI impI allI)
  assume "\<not> truthy token \<or> \<not> truthy fileKey"
  then show "r = (None, tr)"
    unfolding assms(1) by (auto simp: fetchFigmaImage_def)
next
  fix msg
  assume "truthy token \<and> truthy fileKey" "net tr0 file_url hs = Inl msg"
  then show "r = (None, tr0 @ [Fetch file_url hs, Console (FigmaFetchError msg)])"
    unfolding assms by (simp add: fetchFigmaImage_def fetchFigmaImage_try_def)
next
  fix resp msg
  assume "truthy token \<and> truthy fileKey" "net tr0 file_url hs = Inr resp \<and> json_body resp = Inl msg"
  then show "r = (None, tr0 @ [Fetch file_url hs, Console (FigmaFetchError msg)])"
    unfolding assms by (simp add: fetchFigmaImage_def fetchFigmaImage_try_def)
next
  fix resp
  assume h: "truthy token \<and> truthy fileKey" "net tr0 file_url hs = Inr resp \<and> json_body resp = Inr JNull"
  then show "fst r = None"
    unfolding assms by (simp add: fetchFigmaImage_def fetchFigmaImage_try_def)
  from h show "fetches (snd r) = fetches tr @ [Fetch file_url hs]"
    unfolding assms by (simp add: fetchFigmaImage_def fetchFigmaImage_try_def fetches_def)
next
  fix resp v thumb msg
  assume "truthy token \<and> truthy fileKey"
    "net tr0 file_url hs = Inr resp \<and> json_body resp = Inr v
                \<and> get_property v ''thumbnailUrl'' = Inr (Some thumb) \<and> truthy_json thumb
                \<and> net (tr0 @ [Fetch file_url hs]) thumb [] = Inl msg"
  then show "r = (None, tr0 @ [Fetch file_url hs, Fetch thumb [], Console (FigmaFetchError msg)])"
    unfolding assms by (simp add: fetchFigmaImage_def fetchFigmaImage_try_def)
next
  fix resp v thumb imgResp msg
  assume "truthy token \<and> truthy fileKey"
    "net tr0 file_url hs = Inr resp \<and> json_body resp = Inr v
                \<and> get_property v ''thumbnailUrl'' = Inr (Some thumb) \<and> truthy_json thumb
                \<and> net (tr0 @ [Fetch file_url hs]) thumb [] = Inr imgResp
                \<and> base64_body imgResp = Inl msg"
  then show "r = (None, tr0 @ [Fetch file_url hs, Fetch thumb [], Console (FigmaFetchError msg)])"
    unfolding assms by (simp add: fetchFigmaImage_def fetchFigmaImage_try_def)
qed

theorem fetchFigmaImage_absent_witness:
  "fetchFigmaImage figma_online (Some []) (Some ''key'') [] = (None, [])
   \<and> fetchFigmaImage figma_online (Some ''token'') (Some []) [] = (None, [])
   \<and> fetchFigmaImage figma_online None (Some ''key'') [] = (None, [])
   \<and> fetchFigmaImage figma_online (Some ''token'') None [] = (None, [])
   \<and> truthy (Some ''token'') \<and> truthy (Some ''KEY'')
   \<and> offline [Console FetchingFigma] (JStr ''https://api.figma.com/v1/files/KEY'')
        [(''X-Figma-Token'', ''token'')] = Inl ''fetch failed''
   \<and> fetchFigmaImage offline (Some ''token'') (Some ''KEY'') [] =
       (None, [Console FetchingFigma,
               Fetch (JStr ''https://api.figma.com/v1/files/KEY'') [(''X-Figma-Token'', ''token'')],
               Console (FigmaFetchError ''fetch failed'')])"
proof -
  note missing = fetchFigmaImage_absent [where net = figma_online and tr = "[]",
      OF refl refl refl refl, THEN conjunct1, THEN mp]
  have m1: "fetchFigmaImage figma_online (Some []) (Some ''key'') [] = (None, [])"
    by (rule missing) (simp add: truthy_def)
  have m2: "fetchFigmaImage figma_online (Some ''token'') (Some []) [] = (None, [])"
    by (rule missing) (simp add: truthy_def)
  have m3: "fetchFigmaImage figma_online None (Some ''key'') [] = (None, [])"
    by (rule missing) (simp add: truthy_def)
  have m4: "fetchFigmaImage figma_online (Some ''token'') None [] = (None, [])"
    by (rule missing) (simp add: truthy_def)
  have both: "truthy (Some ''token'') \<and> truthy (Some ''KEY'')"
    by (simp add: truthy_def)
  have off: "offline ([] @ [Console FetchingFigma])
        (JStr (''https://api.figma.com/v1/files/'' @ interpolate (Some ''KEY'')))
        [(''X-Figma-Token'', interpolate (Some ''token''))] = Inl ''fetch failed''"
    by (simp add: offline_def)
  note caught = fetchFigmaImage_absent [where net = offline and tr = "[]"
      and token = "Some ''token''" and fileKey = "Some ''KEY''",
      OF refl refl refl refl, THEN conjunct2, THEN mp, OF both, THEN conjunct1, THEN spec,
      THEN mp, OF off]
  show ?thesis
    using m1 m2 m3 m4 both caught by (simp add: offline_def interpolate_def)
qed

text \<open>
  C5, as the specification states it, names the sentence returned without a reference
  image as "no design provided for comparison". The source returns another text.
\<close>

theorem compare_sentinel_differs:
  "compare always_failing (Some ''iVBORw0KGgo='') None [] =
     (Inr ''No Figma Design provided for comparison.'', [])
   \<and> fst (compare always_failing (Some ''iVBORw0KGgo='') None []) \<noteq>
     Inr ''no design provided for comparison''"
  by (simp add: compare_def truthy_def no_design_def)

text \<open>
  C5 (amended): for every live image, \<^verbatim>\<open>compare\<close> with an absent (unset or empty)
  reference returns the fixed text "No Figma Design provided for comparison." and leaves
  the trace unchanged, so that no generation request is issued. With a reference image it
  makes exactly one call of \<^verbatim>\<open>generate\<close>, without a preferred model, whose outcome is
  the outcome of \<^verbatim>\<open>compare\<close>: every request of that call (at least one, at most four,
  to the models of the fixed chain in order) carries both images, the live one first, and
  when all of them fail the failure "All AI agents failed to respond." reaches the caller.
\<close>

theorem compare_result:
  assumes "both = [InlineData liveScreenshot ''image/png'', InlineData figmaScreenshot ''image/png'']"
  shows "(\<not> truthy figmaScreenshot \<longrightarrow>
            compare ai liveScreenshot figmaScreenshot tr =
              (Inr ''No Figma Design provided for comparison.'', tr))
       \<and> (truthy figmaScreenshot \<longrightarrow>
            compare ai liveScreenshot figmaScreenshot tr =
              generate ai DesignPrompt both None (tr @ [Console ComparingDesign])
          \<and> (\<exists>k new. 1 \<le> k \<and> k \<le> 4
                \<and> snd (compare ai liveScreenshot figmaScreenshot tr) = tr @ Console ComparingDesign # new
                \<and> models_of new = take k fallback_chain
                \<and> parts_of new = replicate k both
                \<and> (fst (compare ai liveScreenshot figmaScreenshot tr) = Inl ProviderExhausted \<and> k = 4
                     \<or> (\<exists>t. fst (compare ai liveScreenshot figmaScreenshot tr) = Inr t)))
          \<and> ((\<forall>i<4. ai (length (requests tr) + i) (fallback_chain ! i) DesignPrompt both = None) \<longrightarrow>
                fst (compare ai liveScreenshot figmaScreenshot tr) = Inl ProviderExhausted))"
proof (intro conjI impI)
  assume "\<not> truthy figmaScreenshot"
  then show "compare ai liveScreenshot figmaScreenshot tr =
              (Inr ''No Figma Design provided for comparison.'', tr)"
    by (simp add: compare_def no_design_def)
next
  assume "truthy figmaScreenshot"
  then show eq: "compare ai liveScreenshot figmaScreenshot tr =
              generate ai DesignPrompt both None (tr @ [Console ComparingDesign])"
    by (simp add: compare_def assms)
  have none: "modelsToTry None = fallback_chain"
    by (simp add: modelsToTry_eq)
  have len: "length fallback_chain = 4"
    by (simp add: fallback_chain_def)
  obtain k new where kn: "0 < k" "k \<le> length (modelsToTry None)"
     "snd (generate ai DesignPrompt both None (tr @ [Console ComparingDesign])) = (tr @ [Console ComparingDesign]) @ new"
     "models_of new = take k (modelsToTry None)"
     "parts_of new = replicate k both"
     "fst (generate ai DesignPrompt both None (tr @ [Console ComparingDesign])) = Inl ProviderExhausted \<and> k = length (modelsToTry None)
          \<or> (\<exists>t. fst (generate ai DesignPrompt both None (tr @ [Console ComparingDesign])) = Inr t)"
    by (rule generate_trace [where ai = ai and p = DesignPrompt and ps = both and pref = None
          and tr = "tr @ [Console ComparingDesign]"]) blast
  have "1 \<le> k \<and> k \<le> 4
                \<and> snd (compare ai liveScreenshot figmaScreenshot tr) = tr @ Console ComparingDesign # new
                \<and> models_of new = take k fallback_chain
                \<and> parts_of new = replicate k both
                \<and> (fst (compare ai liveScreenshot figmaScreenshot tr) = Inl ProviderExhausted \<and> k = 4
                     \<or> (\<exists>t. fst (compare ai liveScreenshot figmaScreenshot tr) = Inr t))"
    using kn unfolding eq none len by simp
  then show "\<exists>k new. 1 \<le> k \<and> k \<le> 4
                \<and> snd (compare ai liveScreenshot figmaScreenshot tr) = tr @ Console ComparingDesign # new
                \<and> models_of new = take k fallback_chain
                \<and> parts_of new = replicate k both
                \<and> (fst (compare ai liveScreenshot figmaScreenshot tr) = Inl ProviderExhausted \<and> k = 4
                     \<or> (\<exists>t. fst (compare ai liveScreenshot figmaScreenshot tr) = Inr t))"
    by blast
next
  assume t: "truthy figmaScreenshot"
    and fails: "\<forall>i<4. ai (length (requests tr) + i) (fallback_chain ! i) DesignPrompt both = None"
  have eq: "compare ai liveScreenshot figmaScreenshot tr =
              try_models ai DesignPrompt both fallback_chain (tr @ [Console ComparingDesign])"
    using t by (simp add: compare_def assms generate_def modelsToTry_eq)
  have "\<forall>i<length fallback_chain.
          ai (length (requests (tr @ [Console ComparingDesign])) + i) (fallback_chain ! i) DesignPrompt both = None"
    using fails by (simp add: requests_def fallback_chain_def)
  then show "fst (compare ai liveScreenshot figmaScreenshot tr) = Inl ProviderExhausted"
    unfolding eq by (simp add: try_models_all_fail)
qed

theorem compare_result_witness:
  "\<not> truthy None
   \<and> compare always_failing (Some ''iVBORw0KGgo='') None [] =
       (Inr ''No Figma Design provided for comparison.'', [])
   \<and> truthy (Some ''UE5H'')
   \<and> compare (always_answering ''The button is blue.'') (Some ''iVBORw0KGgo='') (Some ''UE5H'') [] =
       (Inr ''The button is blue.'',
        [Console ComparingDesign, Console (TryingModel ''gemini-2.5-flash''),
         GenerateContent ''gemini-2.5-flash'' DesignPrompt
           [InlineData (Some ''iVBORw0KGgo='') ''image/png'', InlineData (Some ''UE5H'') ''image/png'']])
   \<and> fst (compare always_failing (Some ''iVBORw0KGgo='') (Some ''UE5H'') []) = Inl ProviderExhausted"
proof -
  have f: "\<not> truthy None" and t: "truthy (Some ''UE5H'')"
    by (simp_all add: truthy_def)
  note absent = compare_result [where ai = always_failing and liveScreenshot = "Some ''iVBORw0KGgo=''"
      and figmaScreenshot = None and tr = "[]", OF refl, THEN conjunct1, THEN mp, OF f]
  note present = compare_result [where ai = "always_answering ''The button is blue.''"
      and liveScreenshot = "Some ''iVBORw0KGgo=''"
      and figmaScreenshot = "Some ''UE5H''" and tr = "[]", OF refl, THEN conjunct2, THEN mp, OF t,
      THEN conjunct1]
  have fails: "\<forall>i<4. always_failing (length (requests []) + i) (fallback_chain ! i) DesignPrompt
      [InlineData (Some ''iVBORw0KGgo='') ''image/png'', InlineData (Some ''UE5H'') ''image/png''] = None"
    by (simp add: always_failing_def)
  note exhausted = compare_result [where ai = always_failing
      and liveScreenshot = "Some ''iVBORw0KGgo=''"
      and figmaScreenshot = "Some ''UE5H''" and tr = "[]", OF refl, THEN conjunct2, THEN mp, OF t,
      THEN conjunct2, THEN conjunct2, THEN mp, OF fails]
  have run: "generate (always_answering ''The button is blue.'') DesignPrompt
       [InlineData (Some ''iVBORw0KGgo='') ''image/png'', InlineData (Some ''UE5H'') ''image/png'']
       None [Console ComparingDesign] =
       (Inr ''The button is blue.'',
        [Console ComparingDesign, Console (TryingModel ''gemini-2.5-flash''),
         GenerateContent ''gemini-2.5-flash'' DesignPrompt
           [InlineData (Some ''iVBORw0KGgo='') ''image/png'', InlineData (Some ''UE5H'') ''image/png'']])"
    by (simp add: generate_def modelsToTry_def filter_Boolean_def always_answering_def)
  show ?thesis
    using f t absent present exhausted by (simp add: run)
qed


section \<open>Properties of the executor\<close>

lemma requests_Cons:
  "requests (e # tr) = (if is_GenerateContent e then e # requests tr else requests tr)"
  by (simp add: requests_def)

lemma fetches_Cons: "fetches (e # tr) = (if is_Fetch e then e # fetches tr else fetches tr)"
  by (simp add: fetches_def)

lemma requests_Nil: "requests [] = []"
  by (simp add: requests_def)

lemma fetches_Nil: "fetches [] = []"
  by (simp add: fetches_def)

lemmas quiet_simps = requests_Cons fetches_Cons requests_Nil fetches_Nil requests_append
  fetches_append requests_Delivered fetches_Delivered browser_calls_append
  browser_calls_Delivered page_events_of_append page_events_of_Delivered

lemma no_requests_no_models:
  "requests tr = [] \<Longrightarrow> models_of tr = [] \<and> parts_of tr = [] \<and> models_for P tr = []"
proof (induction tr)
  case Nil
  show ?case by simp
next
  case (Cons e tr)
  then show ?case by (cases e) (simp_all add: requests_Cons)
qed

lemma matching_statuses_append:
  "matching_statuses url (a @ b) = matching_statuses url a @ matching_statuses url b"
  by (induction url a rule: matching_statuses.induct) simp_all

lemma status_after_append:
  "status_after url (status_after url s a) b = status_after url s (a @ b)"
  by (simp add: status_after_def matching_statuses_append)

lemma status_after_Nil: "status_after url s [] = s"
  by (simp add: status_after_def)

lemma networkStatus_on_event:
  "networkStatus (on_event url a ev) = status_after url (networkStatus a) [ev]"
  by (cases ev) (simp_all add: status_after_def)

lemma networkStatus_foldl:
  "networkStatus (foldl (on_event url) a evs) = status_after url (networkStatus a) evs"
proof (induction evs arbitrary: a)
  case Nil
  show ?case by (simp add: status_after_def)
next
  case (Cons ev evs)
  have "networkStatus (foldl (on_event url) a (ev # evs)) =
        status_after url (status_after url (networkStatus a) [ev]) evs"
    by (simp add: Cons.IH networkStatus_on_event)
  then show ?case by (simp add: status_after_append)
qed

lemma screenshot_on_event: "screenshot (on_event url a ev) = screenshot a"
  by (cases ev) simp_all

lemma screenshot_foldl: "screenshot (foldl (on_event url) a evs) = screenshot a"
  by (induction evs arbitrary: a) (simp_all add: screenshot_on_event)

text \<open>The three parts of the audit, each by what it adds to the trace.\<close>

lemma open_page_trace:
  "\<exists>new. snd (snd (open_page pw dev tr)) = tr @ new
     \<and> requests new = [] \<and> fetches new = [] \<and> page_events_of new = []
     \<and> prefix (browser_calls new) (setup_calls pw dev)
     \<and> browser_calls new \<noteq> []
     \<and> (fst (snd (open_page pw dev tr)) \<longleftrightarrow> (\<exists>b. reply pw tr Launch = Inr b))
     \<and> (\<forall>msg. fst (open_page pw dev tr) = Inl msg \<and> \<not> fst (snd (open_page pw dev tr))
           \<longrightarrow> reply pw tr Launch = Inl msg \<and> new = [Browser Launch])
     \<and> (\<forall>u. fst (open_page pw dev tr) = Inr u \<longrightarrow>
           browser_calls new = setup_calls pw dev \<and> fst (snd (open_page pw dev tr)))"
  unfolding open_page_def call_def setup_calls_def
  by (auto simp: quiet_simps split: sum.splits prod.splits)

lemma navigate_trace:
  "\<exists>new. snd (navigate pw url a tr) = tr @ new
     \<and> requests new = [] \<and> fetches new = []
     \<and> prefix (browser_calls new) [Goto url 45000, WaitForTimeout 2000]
     \<and> browser_calls new \<noteq> []
     \<and> (\<forall>a'. fst (navigate pw url a tr) = Inr a' \<longrightarrow>
           browser_calls new = [Goto url 45000, WaitForTimeout 2000]
         \<and> networkStatus a' = status_after url (networkStatus a) (page_events_of new)
         \<and> screenshot a' = screenshot a)"
  unfolding navigate_def await_page_def
  by (auto simp: quiet_simps networkStatus_foldl screenshot_foldl status_after_append
      split: sum.splits prod.splits)

lemma capture_trace:
  "\<exists>new. snd (capture pw url a tr) = tr @ new
     \<and> requests new = [] \<and> fetches new = []
     \<and> prefix (browser_calls new) [Title, Screenshot, Evaluate]
     \<and> browser_calls new \<noteq> []
     \<and> (\<forall>a'. fst (capture pw url a tr) = Inr a' \<longrightarrow>
           browser_calls new = [Title, Screenshot, Evaluate]
         \<and> networkStatus a' = status_after url (networkStatus a) (page_events_of new)
         \<and> screenshot a' \<noteq> None)"
  unfolding capture_def await_page_def
  by (auto simp: quiet_simps networkStatus_foldl screenshot_foldl status_after_append
      split: sum.splits prod.splits)


lemma audit_steps_trace:
  "\<exists>new. snd (snd (audit_steps pw url dev tr)) = tr @ new
     \<and> requests new = [] \<and> fetches new = []
     \<and> prefix (browser_calls new) (planned_calls pw url dev)
     \<and> browser_calls new \<noteq> []
     \<and> (fst (snd (audit_steps pw url dev tr)) \<longleftrightarrow> (\<exists>b. reply pw tr Launch = Inr b))
     \<and> (\<forall>msg. fst (audit_steps pw url dev tr) = Inl msg \<and> \<not> fst (snd (audit_steps pw url dev tr))
           \<longrightarrow> reply pw tr Launch = Inl msg \<and> new = [Browser Launch])
     \<and> (\<forall>a. fst (audit_steps pw url dev tr) = Inr a \<longrightarrow>
           browser_calls new = planned_calls pw url dev
         \<and> networkStatus a = status_after url 0 (page_events_of new)
         \<and> screenshot a \<noteq> None
         \<and> fst (snd (audit_steps pw url dev tr)))"
proof -
  let ?init = "\<lparr>consoleLogs = [], networkStatus = 0, screenshot = None, title = [], htmlSnippet = []\<rparr>"
  obtain r1 b tr3 where op: "open_page pw dev tr = (r1, b, tr3)"
    by (cases "open_page pw dev tr") auto
  have op': "fst (open_page pw dev tr) = r1" "fst (snd (open_page pw dev tr)) = b"
    "snd (snd (open_page pw dev tr)) = tr3"
    by (simp_all add: op)
  obtain n1 where n1: "tr3 = tr @ n1" "requests n1 = []" "fetches n1 = []" "page_events_of n1 = []"
      "prefix (browser_calls n1) (setup_calls pw dev)" "browser_calls n1 \<noteq> []"
      "b \<longleftrightarrow> (\<exists>x. reply pw tr Launch = Inr x)"
      "\<forall>msg. r1 = Inl msg \<and> \<not> b \<longrightarrow> reply pw tr Launch = Inl msg \<and> n1 = [Browser Launch]"
      "\<forall>u. r1 = Inr u \<longrightarrow> browser_calls n1 = setup_calls pw dev \<and> b"
    using open_page_trace [of pw dev tr] unfolding op' by blast
  show ?thesis
  proof (cases r1)
    case (Inl msg)
    then have run: "audit_steps pw url dev tr = (Inl msg, b, tr @ n1)"
      using op n1(1) by (simp add: audit_steps_def)
    have pre: "prefix (browser_calls n1) (planned_calls pw url dev)"
      using n1(5) by (simp add: planned_calls_def prefix_prefix)
    have fail: "\<forall>m. Inl msg = Inl m \<and> \<not> b \<longrightarrow> reply pw tr Launch = Inl m \<and> n1 = [Browser Launch]"
      using n1(8) Inl by blast
    show ?thesis
      unfolding run fst_conv snd_conv
      using n1(2,3,6,7) pre fail by (intro exI [of _ n1]) blast
  next
    case (Inr u)
    have b: "b" and c1: "browser_calls n1 = setup_calls pw dev"
      using n1(9) Inr by auto
    obtain r2 tr5 where nav: "navigate pw url ?init tr3 = (r2, tr5)"
      by (cases "navigate pw url ?init tr3") auto
    have nav': "fst (navigate pw url ?init tr3) = r2" "snd (navigate pw url ?init tr3) = tr5"
      by (simp_all add: nav)
    obtain n2 where n2: "tr5 = tr3 @ n2" "requests n2 = []" "fetches n2 = []"
        "prefix (browser_calls n2) [Goto url 45000, WaitForTimeout 2000]" "browser_calls n2 \<noteq> []"
        "\<forall>a'. r2 = Inr a' \<longrightarrow> browser_calls n2 = [Goto url 45000, WaitForTimeout 2000]
           \<and> networkStatus a' = status_after url (networkStatus ?init) (page_events_of n2)
           \<and> screenshot a' = screenshot ?init"
      using navigate_trace [of pw url ?init tr3] unfolding nav' by blast
    have q12: "requests (n1 @ n2) = []" "fetches (n1 @ n2) = []" "browser_calls (n1 @ n2) \<noteq> []"
      using n1(2,3,6) n2(2,3) by (simp_all add: requests_append fetches_append browser_calls_append)
    show ?thesis
    proof (cases r2)
      case (Inl msg)
      then have run: "audit_steps pw url dev tr = (Inl msg, True, tr @ n1 @ n2)"
        using op nav Inr n1(1) n2(1) b by (simp add: audit_steps_def)
      have p2: "prefix (browser_calls n2)
          ([Goto url 45000, WaitForTimeout 2000] @ [Title, Screenshot, Evaluate])"
        using n2(4) by (rule prefix_prefix)
      have pre: "prefix (browser_calls (n1 @ n2)) (planned_calls pw url dev)"
        unfolding browser_calls_append c1 planned_calls_def
        using p2 by (simp only: same_prefix_prefix)
      have lau: "\<exists>x. reply pw tr Launch = Inr x"
        using n1(7) b by blast
      show ?thesis
        unfolding run fst_conv snd_conv
        using q12 pre lau by (intro exI [of _ "n1 @ n2"]) blast
    next
      case a5: (Inr a5)
      have s5: "networkStatus a5 = status_after url 0 (page_events_of n2)"
        using n2(6) a5 by simp
      obtain r3 tr8 where cap: "capture pw url a5 tr5 = (r3, tr8)"
        by (cases "capture pw url a5 tr5") auto
      have cap': "fst (capture pw url a5 tr5) = r3" "snd (capture pw url a5 tr5) = tr8"
        by (simp_all add: cap)
      obtain n3 where n3: "tr8 = tr5 @ n3" "requests n3 = []" "fetches n3 = []"
          "prefix (browser_calls n3) [Title, Screenshot, Evaluate]" "browser_calls n3 \<noteq> []"
          "\<forall>a'. r3 = Inr a' \<longrightarrow> browser_calls n3 = [Title, Screenshot, Evaluate]
             \<and> networkStatus a' = status_after url (networkStatus a5) (page_events_of n3)
             \<and> screenshot a' \<noteq> None"
        using capture_trace [of pw url a5 tr5] unfolding cap' by blast
      have c2: "browser_calls n2 = [Goto url 45000, WaitForTimeout 2000]"
        using n2(6) a5 by simp
      have q: "requests (n1 @ n2 @ n3) = []" "fetches (n1 @ n2 @ n3) = []"
          "browser_calls (n1 @ n2 @ n3) \<noteq> []"
        using n1(2,3,6) n2(2,3) n3(2,3)
        by (simp_all add: requests_append fetches_append browser_calls_append)
      have pre: "prefix (browser_calls (n1 @ n2 @ n3)) (planned_calls pw url dev)"
        using n3(4) by (simp add: browser_calls_append c1 c2 planned_calls_def)
      have run: "audit_steps pw url dev tr = (r3, True, tr @ n1 @ n2 @ n3)"
        using op nav cap Inr a5 n1(1) n2(1) n3(1) b
        by (cases r3) (simp_all add: audit_steps_def)
      have ok: "\<forall>a. r3 = Inr a \<longrightarrow>
           browser_calls (n1 @ n2 @ n3) = planned_calls pw url dev
         \<and> networkStatus a = status_after url 0 (page_events_of (n1 @ n2 @ n3))
         \<and> screenshot a \<noteq> None"
      proof (intro allI impI)
        fix a assume a: "r3 = Inr a"
        have 1: "browser_calls n3 = [Title, Screenshot, Evaluate]"
          and 2: "networkStatus a = status_after url (networkStatus a5) (page_events_of n3)"
          and 3: "screenshot a \<noteq> None"
          using n3(6) a by auto
        have "browser_calls (n1 @ n2 @ n3) = planned_calls pw url dev"
          by (simp add: browser_calls_append c1 c2 1 planned_calls_def)
        moreover have "networkStatus a = status_after url 0 (page_events_of (n1 @ n2 @ n3))"
          by (simp add: 2 s5 status_after_append page_events_of_append n1(4))
        ultimately show "browser_calls (n1 @ n2 @ n3) = planned_calls pw url dev
         \<and> networkStatus a = status_after url 0 (page_events_of (n1 @ n2 @ n3))
         \<and> screenshot a \<noteq> None"
          using 3 by simp
      qed
      have lau: "\<exists>x. reply pw tr Launch = Inr x"
        using n1(7) b by blast
      show ?thesis
        unfolding run fst_conv snd_conv
        using q pre lau ok by (intro exI [of _ "n1 @ n2 @ n3"]) blast
    qed
  qed
qed


lemma closing_cases:
  assumes "steps = audit_steps pw url dev tr0"
    and "r = executeAudit pw url dev tr" and "tr0 = tr @ [Console (RunningAudit url)]"
  shows "(\<forall>cause tr1. steps = (Inl cause, False, tr1) \<longrightarrow> r = (Inl (AuditFailure cause), tr1))
       \<and> (\<forall>cause tr1. steps = (Inl cause, True, tr1) \<longrightarrow>
            (\<forall>ok. reply pw tr1 Close = Inr ok \<longrightarrow>
                r = (Inl (AuditFailure cause), tr1 @ [Browser Close]))
          \<and> (\<forall>msg. reply pw tr1 Close = Inl msg \<longrightarrow>
                r = (Inl (Error msg), tr1 @ [Browser Close])))
       \<and> (\<forall>a flag tr1 tr2. steps = (Inr a, flag, tr1)
              \<and> tr2 = tr1 @ Browser Close # map Delivered (emitted pw tr1 Close) \<longrightarrow>
            (\<forall>ok. reply pw tr1 Close = Inr ok \<longrightarrow>
                r = (Inr (foldl (on_event url) a (emitted pw tr1 Close)), tr2))
          \<and> (\<forall>cause. reply pw tr1 Close = Inl cause \<longrightarrow>
                (\<forall>ok. reply pw tr2 Close = Inr ok \<longrightarrow>
                    r = (Inl (AuditFailure cause), tr2 @ [Browser Close]))
              \<and> (\<forall>msg. reply pw tr2 Close = Inl msg \<longrightarrow>
                    r = (Inl (Error msg), tr2 @ [Browser Close]))))"
proof (intro conjI allI impI)
  fix cause tr1
  assume "steps = (Inl cause, False, tr1)"
  then show "r = (Inl (AuditFailure cause), tr1)"
    using assms by (simp add: executeAudit_def catch_block_def)
next
  fix cause tr1 ok
  assume "steps = (Inl cause, True, tr1)" "reply pw tr1 Close = Inr ok"
  then show "r = (Inl (AuditFailure cause), tr1 @ [Browser Close])"
    using assms by (simp add: executeAudit_def catch_block_def call_def)
next
  fix cause tr1 msg
  assume "steps = (Inl cause, True, tr1)" "reply pw tr1 Close = Inl msg"
  then show "r = (Inl (Error msg), tr1 @ [Browser Close])"
    using assms by (simp add: executeAudit_def catch_block_def call_def)
next
  fix a flag tr1 tr2 ok
  assume "steps = (Inr a, flag, tr1) \<and> tr2 = tr1 @ Browser Close # map Delivered (emitted pw tr1 Close)"
    "reply pw tr1 Close = Inr ok"
  then show "r = (Inr (foldl (on_event url) a (emitted pw tr1 Close)), tr2)"
    using assms by (simp add: executeAudit_def await_page_def)
next
  fix a flag tr1 tr2 cause ok
  assume "steps = (Inr a, flag, tr1) \<and> tr2 = tr1 @ Browser Close # map Delivered (emitted pw tr1 Close)"
    "reply pw tr1 Close = Inl cause" "reply pw tr2 Close = Inr ok"
  then show "r = (Inl (AuditFailure cause), tr2 @ [Browser Close])"
    using assms by (simp add: executeAudit_def await_page_def catch_block_def call_def)
next
  fix a flag tr1 tr2 cause msg
  assume "steps = (Inr a, flag, tr1) \<and> tr2 = tr1 @ Browser Close # map Delivered (emitted pw tr1 Close)"
    "reply pw tr1 Close = Inl cause" "reply pw tr2 Close = Inl msg"
  then show "r = (Inl (Error msg), tr2 @ [Browser Close])"
    using assms by (simp add: executeAudit_def await_page_def catch_block_def call_def)
qed

text \<open>
  What an audit adds to the trace: after the announcement, the calls of the plan up to the
  one that threw, then the closings; no generation request and no HTTP request. A
  successful audit has made every call once, and its record has a screenshot and the
  status left by the delivered page events.
\<close>

lemma executeAudit_trace:
  "\<exists>new calls closes. snd (executeAudit pw url dev tr) = tr @ Console (RunningAudit url) # new
     \<and> requests new = [] \<and> fetches new = []
     \<and> browser_calls new = calls @ closes
     \<and> calls \<noteq> [] \<and> prefix calls (planned_calls pw url dev)
     \<and> (closes = [] \<or> closes = [Close] \<or> closes = [Close, Close])
     \<and> ((\<exists>b. reply pw (tr @ [Console (RunningAudit url)]) Launch = Inr b) \<longleftrightarrow> closes \<noteq> [])
     \<and> (\<forall>a. fst (executeAudit pw url dev tr) = Inr a \<longrightarrow>
           calls = planned_calls pw url dev \<and> closes = [Close]
         \<and> networkStatus a = status_after url 0 (page_events_of new)
         \<and> screenshot a \<noteq> None)"
proof -
  let ?tr0 = "tr @ [Console (RunningAudit url)]"
  obtain s flag tr1 where st: "audit_steps pw url dev ?tr0 = (s, flag, tr1)"
    by (cases "audit_steps pw url dev ?tr0") auto
  have st': "fst (audit_steps pw url dev ?tr0) = s" "fst (snd (audit_steps pw url dev ?tr0)) = flag"
    "snd (snd (audit_steps pw url dev ?tr0)) = tr1"
    by (simp_all add: st)
  obtain n where n: "tr1 = ?tr0 @ n" "requests n = []" "fetches n = []"
      "prefix (browser_calls n) (planned_calls pw url dev)" "browser_calls n \<noteq> []"
      "flag \<longleftrightarrow> (\<exists>b. reply pw ?tr0 Launch = Inr b)"
      "\<forall>a. s = Inr a \<longrightarrow> browser_calls n = planned_calls pw url dev
         \<and> networkStatus a = status_after url 0 (page_events_of n)
         \<and> screenshot a \<noteq> None \<and> flag"
    using audit_steps_trace [of pw url dev ?tr0] unfolding st' by blast
  have tr1: "tr1 = tr @ Console (RunningAudit url) # n"
    using n(1) by simp
  show ?thesis
  proof (cases s)
    case (Inl cause)
    show ?thesis
    proof (cases flag)
      case False
      have run: "executeAudit pw url dev tr = (Inl (AuditFailure cause), tr1)"
        using st Inl False by (simp add: executeAudit_def catch_block_def)
      have "snd (executeAudit pw url dev tr) = tr @ Console (RunningAudit url) # n
         \<and> requests n = [] \<and> fetches n = []
         \<and> browser_calls n = browser_calls n @ []
         \<and> browser_calls n \<noteq> [] \<and> prefix (browser_calls n) (planned_calls pw url dev)
         \<and> ([] = [] \<or> [] = [Close] \<or> [] = [Close, Close])
         \<and> ((\<exists>b. reply pw ?tr0 Launch = Inr b) \<longleftrightarrow> ([]::browser_call list) \<noteq> [])
         \<and> (\<forall>a. fst (executeAudit pw url dev tr) = Inr a \<longrightarrow>
               browser_calls n = planned_calls pw url dev \<and> [] = [Close]
             \<and> networkStatus a = status_after url 0 (page_events_of n)
             \<and> screenshot a \<noteq> None)"
        using n(2,3,4,5,6) False by (simp add: run tr1)
      then show ?thesis by blast
    next
      case True
      obtain e where run: "executeAudit pw url dev tr = (Inl e, tr1 @ [Browser Close])"
        using st Inl True
        by (cases "reply pw tr1 Close") (simp_all add: executeAudit_def catch_block_def call_def)
      let ?new = "n @ [Browser Close]"
      have "snd (executeAudit pw url dev tr) = tr @ Console (RunningAudit url) # ?new
         \<and> requests ?new = [] \<and> fetches ?new = []
         \<and> browser_calls ?new = browser_calls n @ [Close]
         \<and> browser_calls n \<noteq> [] \<and> prefix (browser_calls n) (planned_calls pw url dev)
         \<and> ([Close] = [] \<or> [Close] = [Close] \<or> [Close] = [Close, Close])
         \<and> ((\<exists>b. reply pw ?tr0 Launch = Inr b) \<longleftrightarrow> [Close] \<noteq> [])
         \<and> (\<forall>a. fst (executeAudit pw url dev tr) = Inr a \<longrightarrow>
               browser_calls n = planned_calls pw url dev \<and> [Close] = [Close]
             \<and> networkStatus a = status_after url 0 (page_events_of ?new)
             \<and> screenshot a \<noteq> None)"
        using n(2,3,4,5,6) True by (simp add: run tr1 quiet_simps)
      then show ?thesis by blast
    qed
  next
    case (Inr a)
    have a: "browser_calls n = planned_calls pw url dev"
        "networkStatus a = status_after url 0 (page_events_of n)" "screenshot a \<noteq> None" "flag"
      using n(7) Inr by auto
    have lau: "\<exists>b. reply pw ?tr0 Launch = Inr b"
      using n(6) a(4) by blast
    let ?evs = "emitted pw tr1 Close"
    let ?tr2 = "tr1 @ Browser Close # map Delivered ?evs"
    show ?thesis
    proof (cases "reply pw tr1 Close")
      case ok: (Inr ok)
      let ?a2 = "foldl (on_event url) a ?evs"
      let ?new = "n @ Browser Close # map Delivered ?evs"
      have run: "executeAudit pw url dev tr = (Inr ?a2, ?tr2)"
        using st Inr ok by (simp add: executeAudit_def await_page_def)
      have rec: "networkStatus ?a2 = status_after url 0 (page_events_of ?new)"
          "screenshot ?a2 \<noteq> None"
        using a(2,3)
        by (simp_all add: networkStatus_foldl screenshot_foldl status_after_append quiet_simps)
      have "snd (executeAudit pw url dev tr) = tr @ Console (RunningAudit url) # ?new
         \<and> requests ?new = [] \<and> fetches ?new = []
         \<and> browser_calls ?new = planned_calls pw url dev @ [Close]
         \<and> planned_calls pw url dev \<noteq> []
         \<and> prefix (planned_calls pw url dev) (planned_calls pw url dev)
         \<and> ([Close] = [] \<or> [Close] = [Close] \<or> [Close] = [Close, Close])
         \<and> ((\<exists>b. reply pw ?tr0 Launch = Inr b) \<longleftrightarrow> [Close] \<noteq> [])
         \<and> (\<forall>a'. fst (executeAudit pw url dev tr) = Inr a' \<longrightarrow>
               planned_calls pw url dev = planned_calls pw url dev \<and> [Close] = [Close]
             \<and> networkStatus a' = status_after url 0 (page_events_of ?new)
             \<and> screenshot a' \<noteq> None)"
        using n(2,3,5) a(1) lau rec by (simp add: run tr1 quiet_simps)
      then show ?thesis by blast
    next
      case thrown: (Inl cause)
      obtain e where run: "executeAudit pw url dev tr = (Inl e, ?tr2 @ [Browser Close])"
        using st Inr thrown
        by (cases "reply pw ?tr2 Close")
           (simp_all add: executeAudit_def await_page_def catch_block_def call_def)
      let ?new = "n @ Browser Close # map Delivered ?evs @ [Browser Close]"
      have "snd (executeAudit pw url dev tr) = tr @ Console (RunningAudit url) # ?new
         \<and> requests ?new = [] \<and> fetches ?new = []
         \<and> browser_calls ?new = planned_calls pw url dev @ [Close, Close]
         \<and> planned_calls pw url dev \<noteq> []
         \<and> prefix (planned_calls pw url dev) (planned_calls pw url dev)
         \<and> ([Close, Close] = [] \<or> [Close, Close] = [Close] \<or> [Close, Close] = [Close, Close])
         \<and> ((\<exists>b. reply pw ?tr0 Launch = Inr b) \<longleftrightarrow> [Close, Close] \<noteq> [])
         \<and> (\<forall>a'. fst (executeAudit pw url dev tr) = Inr a' \<longrightarrow>
               planned_calls pw url dev = planned_calls pw url dev \<and> [Close, Close] = [Close]
             \<and> networkStatus a' = status_after url 0 (page_events_of ?new)
             \<and> screenshot a' \<noteq> None)"
        using n(2,3,5) a(1) lau by (simp add: run tr1 quiet_simps)
      then show ?thesis by blast
    qed
  qed
qed


lemma distinct_planned_calls:
  "distinct (planned_calls pw url dev) \<and> Close \<notin> set (planned_calls pw url dev)"
  by (simp add: planned_calls_def setup_calls_def)


lemma broken_browser_audit:
  "executeAudit broken_browser example_url (JStr ''desktop'') [] =
     (Inl (Error ''browser.close: Connection closed''),
      [Console (RunningAudit example_url), Browser Launch,
       Browser (NewContext (1920, 1080) False), Browser NewPage,
       Browser (Goto example_url 45000),
       Delivered (Response ''https://example.com/'' 200),
       Delivered (ConsoleMessage ''warning'' ''deprecated''),
       Delivered (ConsoleMessage ''log'' ''ready''),
       Delivered (Response ''https://example.com/app.js'' 404),
       Browser Close])"
  by (simp add: executeAudit_def audit_steps_def open_page_def navigate_def catch_block_def
      call_def await_page_def viewport_for_def broken_browser_def calm_browser_def)

lemma broken_browser_goto:
  "reply broken_browser tr (Goto example_url 45000) = Inl timeout_message"
  by (simp add: broken_browser_def calm_browser_def)

text \<open>
  C6: every exit path of \<^verbatim>\<open>executeAudit\<close> releases the browser if it was created, and
  an exception in the steps makes the call fail with \<^verbatim>\<open>AuditFailure\<close> carrying the
  underlying cause. The \<^verbatim>\<open>catch\<close> block does close the browser and then throw the
  wrapped error, but it awaits the closing without a guard. At the input below the
  navigation runs into its timeout and the closing in the \<^verbatim>\<open>catch\<close> block throws as
  well: the error of the closing leaves the function, the wrapping \<^verbatim>\<open>throw\<close> is never
  reached, and the message of the timeout is lost. Here the code does not do what the
  claim states.
\<close>

theorem executeAudit_closing_error_escapes:
  "reply broken_browser
     [Console (RunningAudit example_url), Browser Launch,
      Browser (NewContext (1920, 1080) False), Browser NewPage]
     (Goto example_url 45000) = Inl timeout_message
   \<and> fst (executeAudit broken_browser example_url (JStr ''desktop'') []) =
     Inl (Error ''browser.close: Connection closed'')
   \<and> fst (executeAudit broken_browser example_url (JStr ''desktop'') []) \<noteq>
     Inl (AuditFailure timeout_message)
   \<and> browser_calls (snd (executeAudit broken_browser example_url (JStr ''desktop'') [])) =
     [Launch, NewContext (1920, 1080) False, NewPage, Goto example_url 45000, Close]"
  by (simp add: broken_browser_audit broken_browser_goto AuditFailure_def timeout_message_def)

text \<open>
  The exit paths of \<^verbatim>\<open>executeAudit\<close>, one by one. The closing of the browser, if the
  browser was created, is called before the function returns or fails, as the last call
  made on the browser. When a step before the closing throws and the closing in the
  \<^verbatim>\<open>catch\<close> block returns, the function fails with the error "Executor Audit Failed: "
  followed by the message of the cause. No step is repeated: the calls made are an
  initial part of the fixed sequence of steps, each once, followed by the closings.
\<close>

theorem executeAudit_release:
  assumes "tr0 = tr @ [Console (RunningAudit url)]"
    and "steps = audit_steps pw url dev tr0"
    and "r = executeAudit pw url dev tr"
  shows "(\<forall>cause tr1. steps = (Inl cause, False, tr1) \<longrightarrow> r = (Inl (AuditFailure cause), tr1))
       \<and> (\<forall>cause tr1. steps = (Inl cause, True, tr1) \<longrightarrow>
            (\<forall>ok. reply pw tr1 Close = Inr ok \<longrightarrow>
                r = (Inl (AuditFailure cause), tr1 @ [Browser Close]))
          \<and> (\<forall>msg. reply pw tr1 Close = Inl msg \<longrightarrow>
                r = (Inl (Error msg), tr1 @ [Browser Close])))
       \<and> (\<forall>a flag tr1 tr2. steps = (Inr a, flag, tr1)
              \<and> tr2 = tr1 @ Browser Close # map Delivered (emitted pw tr1 Close) \<longrightarrow>
            (\<forall>ok. reply pw tr1 Close = Inr ok \<longrightarrow>
                r = (Inr (foldl (on_event url) a (emitted pw tr1 Close)), tr2))
          \<and> (\<forall>cause. reply pw tr1 Close = Inl cause \<longrightarrow>
                (\<forall>ok. reply pw tr2 Close = Inr ok \<longrightarrow>
                    r = (Inl (AuditFailure cause), tr2 @ [Browser Close]))
              \<and> (\<forall>msg. reply pw tr2 Close = Inl msg \<longrightarrow>
                    r = (Inl (Error msg), tr2 @ [Browser Close]))))
       \<and> (\<exists>new calls closes. snd r = tr0 @ new
            \<and> browser_calls new = calls @ closes
            \<and> calls \<noteq> [] \<and> prefix calls (planned_calls pw url dev)
            \<and> distinct calls \<and> Close \<notin> set calls
            \<and> (closes = [] \<or> closes = [Close] \<or> closes = [Close, Close])
            \<and> ((\<exists>b. reply pw tr0 Launch = Inr b) \<longleftrightarrow> closes \<noteq> [])
            \<and> ((\<exists>b. reply pw tr0 Launch = Inr b) \<longrightarrow> last (browser_calls new) = Close))"
proof -
  note cases = closing_cases [OF assms(2) assms(3) assms(1)]
  note c1 = cases [THEN conjunct1]
  note c2 = cases [THEN conjunct2, THEN conjunct1]
  note c3 = cases [THEN conjunct2, THEN conjunct2]
  obtain new calls closes where s: "snd (executeAudit pw url dev tr) = tr @ Console (RunningAudit url) # new"
     "browser_calls new = calls @ closes"
     "calls \<noteq> []" "prefix calls (planned_calls pw url dev)"
     "closes = [] \<or> closes = [Close] \<or> closes = [Close, Close]"
     "(\<exists>b. reply pw (tr @ [Console (RunningAudit url)]) Launch = Inr b) \<longleftrightarrow> closes \<noteq> []"
    using executeAudit_trace [of pw url dev tr] by blast
  obtain rest where rest: "planned_calls pw url dev = calls @ rest"
    using s(4) by (auto elim: prefixE)
  have "distinct (calls @ rest)" and "Close \<notin> set (calls @ rest)"
    using distinct_planned_calls [of pw url dev] unfolding rest by simp_all
  then have d: "distinct calls" and c: "Close \<notin> set calls"
    by simp_all
  have tr: "snd r = tr0 @ new"
    using s(1) assms(1,3) by simp
  have lau: "(\<exists>b. reply pw tr0 Launch = Inr b) \<longleftrightarrow> closes \<noteq> []"
    using s(6) assms(1) by simp
  have l: "(\<exists>b. reply pw tr0 Launch = Inr b) \<longrightarrow> last (browser_calls new) = Close"
  proof
    assume "\<exists>b. reply pw tr0 Launch = Inr b"
    then have "closes \<noteq> []" using lau by simp
    then have "closes = [Close] \<or> closes = [Close, Close]" using s(5) by simp
    then show "last (browser_calls new) = Close"
      unfolding s(2) by (elim disjE) simp_all
  qed
  have summary: "\<exists>new calls closes. snd r = tr0 @ new
            \<and> browser_calls new = calls @ closes
            \<and> calls \<noteq> [] \<and> prefix calls (planned_calls pw url dev)
            \<and> distinct calls \<and> Close \<notin> set calls
            \<and> (closes = [] \<or> closes = [Close] \<or> closes = [Close, Close])
            \<and> ((\<exists>b. reply pw tr0 Launch = Inr b) \<longleftrightarrow> closes \<noteq> [])
            \<and> ((\<exists>b. reply pw tr0 Launch = Inr b) \<longrightarrow> last (browser_calls new) = Close)"
    by (intro exI [of _ new] exI [of _ calls] exI [of _ closes] conjI)
       (rule tr s(2) s(3) s(4) d c s(5) lau l)+
  show ?thesis
    by (rule conjI [OF c1 conjI [OF c2 conjI [OF c3 summary]]])
qed

lemma slow_browser_steps:
  "audit_steps slow_browser example_url (JStr ''desktop'') ([] @ [Console (RunningAudit example_url)]) =
     (Inl timeout_message, True,
      [Console (RunningAudit example_url), Browser Launch,
       Browser (NewContext (1920, 1080) False), Browser NewPage,
       Browser (Goto example_url 45000),
       Delivered (Response ''https://example.com/'' 200),
       Delivered (ConsoleMessage ''warning'' ''deprecated''),
       Delivered (ConsoleMessage ''log'' ''ready''),
       Delivered (Response ''https://example.com/app.js'' 404)])"
  by (simp add: audit_steps_def open_page_def navigate_def call_def await_page_def
      viewport_for_def slow_browser_def calm_browser_def)

theorem executeAudit_release_witness:
  "audit_steps slow_browser example_url (JStr ''desktop'') ([] @ [Console (RunningAudit example_url)]) =
     (Inl timeout_message, True,
      [Console (RunningAudit example_url), Browser Launch,
       Browser (NewContext (1920, 1080) False), Browser NewPage,
       Browser (Goto example_url 45000),
       Delivered (Response ''https://example.com/'' 200),
       Delivered (ConsoleMessage ''warning'' ''deprecated''),
       Delivered (ConsoleMessage ''log'' ''ready''),
       Delivered (Response ''https://example.com/app.js'' 404)])
   \<and> executeAudit slow_browser example_url (JStr ''desktop'') [] =
     (Inl (AuditFailure timeout_message),
      [Console (RunningAudit example_url), Browser Launch,
       Browser (NewContext (1920, 1080) False), Browser NewPage,
       Browser (Goto example_url 45000),
       Delivered (Response ''https://example.com/'' 200),
       Delivered (ConsoleMessage ''warning'' ''deprecated''),
       Delivered (ConsoleMessage ''log'' ''ready''),
       Delivered (Response ''https://example.com/app.js'' 404)] @ [Browser Close])"
proof -
  let ?tr1 = "[Console (RunningAudit example_url), Browser Launch,
       Browser (NewContext (1920, 1080) False), Browser NewPage,
       Browser (Goto example_url 45000),
       Delivered (Response ''https://example.com/'' 200),
       Delivered (ConsoleMessage ''warning'' ''deprecated''),
       Delivered (ConsoleMessage ''log'' ''ready''),
       Delivered (Response ''https://example.com/app.js'' 404)]"
  have closes: "reply slow_browser ?tr1 Close = Inr []"
    by (simp add: slow_browser_def calm_browser_def)
  note released = executeAudit_release [where pw = slow_browser and url = example_url
      and dev = "JStr ''desktop''" and tr = "[]", OF refl refl refl, THEN conjunct2, THEN conjunct1,
      THEN spec, THEN spec, THEN mp, OF slow_browser_steps, THEN conjunct1, THEN spec, THEN mp,
      OF closes]
  show ?thesis
    by (rule conjI [OF slow_browser_steps released])
qed




lemma calm_browser_audit:
  "executeAudit calm_browser example_url (JStr ''desktop'') [] =
     (Inr \<lparr>consoleLogs = [''[warning] deprecated''], networkStatus = 0,
           screenshot = Some ''iVBORw0KGgo='', title = ''Example Domain'',
           htmlSnippet = ''Example Domain. More information...''\<rparr>,
      [Console (RunningAudit example_url), Browser Launch,
       Browser (NewContext (1920, 1080) False), Browser NewPage,
       Browser (Goto example_url 45000),
       Delivered (Response ''https://example.com/'' 200),
       Delivered (ConsoleMessage ''warning'' ''deprecated''),
       Delivered (ConsoleMessage ''log'' ''ready''),
       Delivered (Response ''https://example.com/app.js'' 404),
       Browser (WaitForTimeout 2000), Browser Title, Browser Screenshot,
       Browser Evaluate, Browser Close])"
  by (simp add: executeAudit_def audit_steps_def open_page_def navigate_def capture_def
      call_def await_page_def viewport_for_def calm_browser_def example_url_def)



section \<open>Properties of a mission\<close>

lemma generate_models:
  obtains k new where "1 \<le> k" "k \<le> length (modelsToTry pref)"
     "snd (generate ai p ps pref tr) = tr @ new"
     "models_of new = take k (modelsToTry pref)"
     "browser_calls new = []"
     "fst (generate ai p ps pref tr) = Inl ProviderExhausted \<longrightarrow> k = length (modelsToTry pref)"
proof -
  obtain k new where g: "0 < k" "k \<le> length (modelsToTry pref)"
     "snd (generate ai p ps pref tr) = tr @ new"
     "models_of new = take k (modelsToTry pref)"
     "browser_calls new = []"
     "fst (generate ai p ps pref tr) = Inl ProviderExhausted \<and> k = length (modelsToTry pref)
          \<or> (\<exists>t. fst (generate ai p ps pref tr) = Inr t)"
    by (rule generate_trace [where ai = ai and p = p and ps = ps and pref = pref and tr = tr]) blast
  have "fst (generate ai p ps pref tr) = Inl ProviderExhausted \<longrightarrow> k = length (modelsToTry pref)"
    using g(6) by auto
  moreover have "1 \<le> k" using g(1) by simp
  ultimately show ?thesis
    using g(2,3,4,5) that by blast
qed

lemma createTestPlan_tail:
  assumes "generate ai (ArchitectPrompt d) [InlineData shot ''image/png''] None
             (tr @ [Console CreatingTestPlan]) = (g, t1)"
  shows "\<exists>plan tr2. createTestPlan ai parser snippet shot (JStr d) tr = (Inr plan, tr2)
           \<and> (tr2 = t1 \<or> (\<exists>e. tr2 = t1 @ [Console (ArchitectFailed e)]))"
  using assms
  by (cases g; cases "parser (strip_fences (projr g))";
      cases "get_property (projr (parser (strip_fences (projr g)))) ''test_plan''")
     (simp_all add: createTestPlan_def createTestPlan_try_def)

lemma createTestPlan_trace:
  "\<exists>new. snd (createTestPlan ai parser snippet shot device tr) = tr @ new
     \<and> browser_calls new = []"
proof (cases "\<exists>d. device = JStr d")
  case False
  then have "\<forall>s. device \<noteq> JStr s" by blast
  from createTestPlan_device_not_string [OF this, of ai parser snippet shot tr]
  have "snd (createTestPlan ai parser snippet shot device tr) = tr @ [Console CreatingTestPlan]
     \<and> browser_calls [Console CreatingTestPlan] = []"
    by auto
  then show ?thesis by blast
next
  case True
  then obtain d where d: "device = JStr d" by blast
  let ?p = "ArchitectPrompt d" and ?ps = "[InlineData shot ''image/png'']"
  let ?tr0 = "tr @ [Console CreatingTestPlan]"
  obtain g t1 where run: "generate ai ?p ?ps None ?tr0 = (g, t1)"
    by (cases "generate ai ?p ?ps None ?tr0") auto
  obtain k new where n: "snd (generate ai ?p ?ps None ?tr0) = ?tr0 @ new" "browser_calls new = []"
    by (rule generate_models [where ai = ai and p = ?p and ps = ?ps and pref = None and tr = ?tr0])
  have t1: "t1 = tr @ Console CreatingTestPlan # new"
    using n(1) run by simp
  obtain plan tr2 where c: "createTestPlan ai parser snippet shot (JStr d) tr = (Inr plan, tr2)"
      "tr2 = t1 \<or> (\<exists>e. tr2 = t1 @ [Console (ArchitectFailed e)])"
    using createTestPlan_tail [OF run, of parser snippet] by blast
  from c(2) show ?thesis
  proof
    assume "tr2 = t1"
    then have "snd (createTestPlan ai parser snippet shot device tr) = tr @ (Console CreatingTestPlan # new)
       \<and> browser_calls (Console CreatingTestPlan # new) = []"
      using c(1) d t1 n(2) by simp
    then show ?thesis by blast
  next
    assume "\<exists>e. tr2 = t1 @ [Console (ArchitectFailed e)]"
    then obtain e where "tr2 = t1 @ [Console (ArchitectFailed e)]" by blast
    then have "snd (createTestPlan ai parser snippet shot device tr)
          = tr @ (Console CreatingTestPlan # new @ [Console (ArchitectFailed e)])
       \<and> browser_calls (Console CreatingTestPlan # new @ [Console (ArchitectFailed e)]) = []"
      using c(1) d t1 n(2) by (simp add: browser_calls_append)
    then show ?thesis by blast
  qed
qed

lemma fetchFigmaImage_trace:
  "\<exists>new. snd (fetchFigmaImage net token fileKey tr) = tr @ new
     \<and> requests new = [] \<and> browser_calls new = []"
  unfolding fetchFigmaImage_def fetchFigmaImage_try_def Let_def
  by (auto simp: requests_Cons requests_Nil requests_append browser_calls_append
      split: sum.splits option.splits prod.splits)

lemma fetchFigmaImage_without_key:
  "\<not> truthy fileKey \<Longrightarrow> fst (fetchFigmaImage net token fileKey tr) = None"
  by (simp add: fetchFigmaImage_def)

lemma compare_trace:
  "\<exists>k new. snd (compare ai live fig tr) = tr @ new
     \<and> k \<le> 4 \<and> browser_calls new = [] \<and> fetches new = []
     \<and> models_of new = take k fallback_chain
     \<and> (\<forall>P. models_for P new = (if P DesignPrompt then take k fallback_chain else []))"
proof (cases "truthy fig")
  case False
  then have "snd (compare ai live fig tr) = tr @ []
     \<and> (0::nat) \<le> 4 \<and> browser_calls [] = [] \<and> fetches [] = []
     \<and> models_of [] = take 0 fallback_chain
     \<and> (\<forall>P. models_for P [] = (if P DesignPrompt then take 0 fallback_chain else []))"
    by (simp add: compare_def fetches_def)
  then show ?thesis by blast
next
  case True
  let ?ps = "[InlineData live ''image/png'', InlineData fig ''image/png'']"
  let ?tr0 = "tr @ [Console ComparingDesign]"
  have none: "modelsToTry None = fallback_chain"
    by (simp add: modelsToTry_eq)
  obtain k new where g: "k \<le> length (modelsToTry None)"
     "snd (generate ai DesignPrompt ?ps None ?tr0) = ?tr0 @ new"
     "models_of new = take k (modelsToTry None)"
     "\<And>P. models_for P new = (if P DesignPrompt then take k (modelsToTry None) else [])"
     "browser_calls new = []" "fetches new = []"
    by (rule generate_trace [where ai = ai and p = DesignPrompt and ps = ?ps and pref = None
          and tr = ?tr0]) blast
  let ?new = "Console ComparingDesign # new"
  have "snd (compare ai live fig tr) = tr @ ?new
     \<and> k \<le> 4 \<and> browser_calls ?new = [] \<and> fetches ?new = []
     \<and> models_of ?new = take k fallback_chain
     \<and> (\<forall>P. models_for P ?new = (if P DesignPrompt then take k fallback_chain else []))"
    using g True unfolding none
    by (simp add: compare_def fetches_Cons fallback_chain_def)
  then show ?thesis by blast
qed


lemma no_requests_models_for: "requests tr = [] \<Longrightarrow> models_for P tr = []"
  using no_requests_no_models [of tr P] by simp

lemma no_requests_models_of: "requests tr = [] \<Longrightarrow> models_of tr = []"
  using no_requests_no_models [of tr] by simp

text \<open>After a successful audit a mission makes no further call on the browser.\<close>

lemma startMission_after_audit:
  assumes "executeAudit (chromium w) url device tr = (Inr a, tr1)"
  shows "\<exists>rest. snd (startMission w url device figmaToken figmaFile llmModel tr) = tr1 @ rest
           \<and> browser_calls rest = []"
proof -
  let ?auth = "if truthy figmaToken then figmaToken else FIGMA_ACCESS_TOKEN w"
  obtain rp tr2 where cp: "createTestPlan (genAI w) (JSON_parse w) (htmlSnippet a) (screenshot a) device tr1 = (rp, tr2)"
    by (cases "createTestPlan (genAI w) (JSON_parse w) (htmlSnippet a) (screenshot a) device tr1") auto
  obtain pl where pl: "tr2 = tr1 @ pl" "browser_calls pl = []"
    using createTestPlan_trace [of "genAI w" "JSON_parse w" "htmlSnippet a" "screenshot a" device tr1]
    unfolding cp snd_conv by blast
  show ?thesis
  proof (cases rp)
    case (Inl e)
    have "snd (startMission w url device figmaToken figmaFile llmModel tr) = tr1 @ pl
        \<and> browser_calls pl = []"
      using assms cp Inl pl by (simp add: startMission_def)
    then show ?thesis by blast
  next
    case (Inr plan)
    obtain img tr3 where ff: "fetchFigmaImage (network w) ?auth figmaFile tr2 = (img, tr3)"
      by (cases "fetchFigmaImage (network w) ?auth figmaFile tr2") auto
    obtain fe where fe: "tr3 = tr2 @ fe" "browser_calls fe = []"
      using fetchFigmaImage_trace [of "network w" ?auth figmaFile tr2]
      unfolding ff snd_conv by blast
    obtain rc tr4 where cm: "compare (genAI w) (screenshot a) img tr3 = (rc, tr4)"
      by (cases "compare (genAI w) (screenshot a) img tr3") auto
    obtain k2 ce where ce: "tr4 = tr3 @ ce" "browser_calls ce = []"
      using compare_trace [of "genAI w" "screenshot a" img tr3]
      unfolding cm snd_conv by blast
    have tr4: "tr4 = tr1 @ pl @ fe @ ce"
      using pl(1) fe(1) ce(1) by simp
    show ?thesis
    proof (cases rc)
      case (Inl e)
      have "snd (startMission w url device figmaToken figmaFile llmModel tr) = tr1 @ (pl @ fe @ ce)
          \<and> browser_calls (pl @ fe @ ce) = []"
        using assms cp Inr ff cm Inl pl(2) fe(2) ce(2)
        by (simp add: startMission_def tr4 browser_calls_append)
      then show ?thesis by blast
    next
      case d: (Inr d)
      let ?p = "FinalReportPrompt plan (length (consoleLogs a)) (networkStatus a) d"
      let ?ps = "[InlineData (screenshot a) ''image/png'']"
      obtain rg tr5 where gn: "generate (genAI w) ?p ?ps llmModel tr4 = (rg, tr5)"
        by (cases "generate (genAI w) ?p ?ps llmModel tr4") auto
      obtain k fin where g: "snd (generate (genAI w) ?p ?ps llmModel tr4) = tr4 @ fin"
         "browser_calls fin = []"
        by (rule generate_models [where ai = "genAI w" and p = ?p and ps = ?ps and pref = llmModel
              and tr = tr4])
      have tr5: "tr5 = tr4 @ fin"
        using g(1) gn by simp
      have run: "snd (startMission w url device figmaToken figmaFile llmModel tr) = tr5"
        using assms cp Inr ff cm d gn
        by (simp add: startMission_def split: sum.splits option.splits)
      have "snd (startMission w url device figmaToken figmaFile llmModel tr) = tr1 @ (pl @ fe @ ce @ fin)
          \<and> browser_calls (pl @ fe @ ce @ fin) = []"
        using pl(2) fe(2) ce(2) g(2) by (simp add: run tr5 tr4 browser_calls_append)
      then show ?thesis by blast
    qed
  qed
qed


lemma hd_modelsToTry:
  assumes "truthy llmModel" and "1 \<le> k"
  shows "hd (take k (modelsToTry llmModel)) = interpolate llmModel"
proof -
  obtain m where m: "llmModel = Some m" "m \<noteq> []"
    using assms(1) by (cases llmModel) (auto simp: truthy_def)
  obtain j where j: "k = Suc j"
    using assms(2) by (cases k) auto
  show ?thesis
    by (simp add: m j modelsToTry_eq interpolate_def)
qed

lemma calm_world_audit:
  "executeAudit (chromium calm_world) example_url (JStr ''desktop'') [] =
     (Inr calm_record, calm_audit_trace)"
  by (simp add: calm_world_def calm_browser_audit calm_record_def calm_audit_trace_def)

lemma mission_generate_calls:
  assumes "executeAudit (chromium w) url (JStr d) tr = (Inr a, tr1)"
    and "shot = InlineData (screenshot a) ''image/png''"
    and "auth = (if truthy figmaToken then figmaToken else FIGMA_ACCESS_TOKEN w)"
  shows "\<exists>g1 t1 plan tr2 img tr3 rc tr4.
      generate (genAI w) (ArchitectPrompt d) [shot] None (tr1 @ [Console CreatingTestPlan]) = (g1, t1)
    \<and> createTestPlan (genAI w) (JSON_parse w) (htmlSnippet a) (screenshot a) (JStr d) tr1 = (Inr plan, tr2)
    \<and> (tr2 = t1 \<or> (\<exists>e. tr2 = t1 @ [Console (ArchitectFailed e)]))
    \<and> (\<exists>k1. 1 \<le> k1 \<and> k1 \<le> 4 \<and> models_of tr2 = models_of tr1 @ take k1 fallback_chain
           \<and> (g1 = Inl ProviderExhausted \<longrightarrow> k1 = 4))
    \<and> fetchFigmaImage (network w) auth figmaFile tr2 = (img, tr3)
    \<and> models_of tr3 = models_of tr2
    \<and> compare (genAI w) (screenshot a) img tr3 = (rc, tr4)
    \<and> (\<not> truthy img \<longrightarrow> tr4 = tr3)
    \<and> (truthy img \<longrightarrow>
          generate (genAI w) DesignPrompt [shot, InlineData img ''image/png''] None
            (tr3 @ [Console ComparingDesign]) = (rc, tr4)
        \<and> (\<exists>k2. 1 \<le> k2 \<and> k2 \<le> 4 \<and> models_of tr4 = models_of tr3 @ take k2 fallback_chain
               \<and> (rc = Inl ProviderExhausted \<longrightarrow> k2 = 4)))
    \<and> (\<forall>llmModel.
          (\<forall>e. rc = Inl e \<longrightarrow>
             startMission w url (JStr d) figmaToken figmaFile llmModel tr = (Inl e, tr4))
        \<and> (\<forall>da. rc = Inr da \<longrightarrow>
             (\<exists>g k. generate (genAI w)
                        (FinalReportPrompt plan (length (consoleLogs a)) (networkStatus a) da)
                        [shot] llmModel tr4
                      = (g, snd (startMission w url (JStr d) figmaToken figmaFile llmModel tr))
                  \<and> 1 \<le> k \<and> k \<le> length (modelsToTry llmModel)
                  \<and> models_of (snd (startMission w url (JStr d) figmaToken figmaFile llmModel tr))
                      = models_of tr4 @ take k (modelsToTry llmModel)
                  \<and> (g = Inl ProviderExhausted \<longrightarrow> k = length (modelsToTry llmModel))
                  \<and> (truthy llmModel \<longrightarrow>
                       hd (take k (modelsToTry llmModel)) = interpolate llmModel))))
    \<and> modelsToTry None = fallback_chain"
proof -
  have none: "modelsToTry None = fallback_chain"
    by (simp add: modelsToTry_eq)
  have len: "length fallback_chain = 4"
    by (simp add: fallback_chain_def)
  let ?tr0 = "tr1 @ [Console CreatingTestPlan]"
  obtain g1 t1 where g1: "generate (genAI w) (ArchitectPrompt d) [shot] None ?tr0 = (g1, t1)"
    by (cases "generate (genAI w) (ArchitectPrompt d) [shot] None ?tr0") auto
  obtain plan tr2 where cp:
      "createTestPlan (genAI w) (JSON_parse w) (htmlSnippet a) (screenshot a) (JStr d) tr1 = (Inr plan, tr2)"
      "tr2 = t1 \<or> (\<exists>e. tr2 = t1 @ [Console (ArchitectFailed e)])"
    using createTestPlan_tail [OF g1 [unfolded assms(2)], of "JSON_parse w" "htmlSnippet a"] by blast
  obtain k1 n1 where k1: "1 \<le> k1" "k1 \<le> length (modelsToTry None)"
      "snd (generate (genAI w) (ArchitectPrompt d) [shot] None ?tr0) = ?tr0 @ n1"
      "models_of n1 = take k1 (modelsToTry None)"
      "fst (generate (genAI w) (ArchitectPrompt d) [shot] None ?tr0) = Inl ProviderExhausted
         \<longrightarrow> k1 = length (modelsToTry None)"
    by (rule generate_models [where ai = "genAI w" and p = "ArchitectPrompt d" and ps = "[shot]"
          and pref = None and tr = ?tr0])
  have t1: "models_of t1 = models_of tr1 @ take k1 fallback_chain"
    using k1(3,4) g1 by (simp add: models_of_append none)
  have m2: "models_of tr2 = models_of tr1 @ take k1 fallback_chain"
    using cp(2) t1 by (auto simp: models_of_append)
  have P: "\<exists>k1. 1 \<le> k1 \<and> k1 \<le> 4 \<and> models_of tr2 = models_of tr1 @ take k1 fallback_chain
           \<and> (g1 = Inl ProviderExhausted \<longrightarrow> k1 = 4)"
    using k1(1,2,5) m2 g1 by (intro exI [of _ k1]) (simp add: none len)
  obtain img tr3 where ff: "fetchFigmaImage (network w) auth figmaFile tr2 = (img, tr3)"
    by (cases "fetchFigmaImage (network w) auth figmaFile tr2") auto
  obtain fe where fe: "tr3 = tr2 @ fe" "requests fe = []"
    using fetchFigmaImage_trace [of "network w" auth figmaFile tr2]
    unfolding ff snd_conv by blast
  have m3: "models_of tr3 = models_of tr2"
    using fe by (simp add: models_of_append no_requests_models_of)
  obtain rc tr4 where cm: "compare (genAI w) (screenshot a) img tr3 = (rc, tr4)"
    by (cases "compare (genAI w) (screenshot a) img tr3") auto
  have D0: "\<not> truthy img \<longrightarrow> tr4 = tr3"
    using cm by (auto simp: compare_def)
  let ?both = "[shot, InlineData img ''image/png'']"
  have D1: "truthy img \<longrightarrow>
          generate (genAI w) DesignPrompt ?both None (tr3 @ [Console ComparingDesign]) = (rc, tr4)
        \<and> (\<exists>k2. 1 \<le> k2 \<and> k2 \<le> 4 \<and> models_of tr4 = models_of tr3 @ take k2 fallback_chain
               \<and> (rc = Inl ProviderExhausted \<longrightarrow> k2 = 4))"
  proof
    assume t: "truthy img"
    let ?tr = "tr3 @ [Console ComparingDesign]"
    have run: "generate (genAI w) DesignPrompt ?both None ?tr = (rc, tr4)"
      using cm t by (simp add: compare_def assms(2))
    obtain k2 n2 where k2: "1 \<le> k2" "k2 \<le> length (modelsToTry None)"
        "snd (generate (genAI w) DesignPrompt ?both None ?tr) = ?tr @ n2"
        "models_of n2 = take k2 (modelsToTry None)"
        "fst (generate (genAI w) DesignPrompt ?both None ?tr) = Inl ProviderExhausted
           \<longrightarrow> k2 = length (modelsToTry None)"
      by (rule generate_models [where ai = "genAI w" and p = DesignPrompt and ps = ?both
            and pref = None and tr = ?tr])
    have "1 \<le> k2 \<and> k2 \<le> 4 \<and> models_of tr4 = models_of tr3 @ take k2 fallback_chain
               \<and> (rc = Inl ProviderExhausted \<longrightarrow> k2 = 4)"
      using k2 run by (simp add: models_of_append none len)
    then have "\<exists>k2. 1 \<le> k2 \<and> k2 \<le> 4 \<and> models_of tr4 = models_of tr3 @ take k2 fallback_chain
               \<and> (rc = Inl ProviderExhausted \<longrightarrow> k2 = 4)"
      by blast
    with run show "generate (genAI w) DesignPrompt ?both None ?tr = (rc, tr4)
        \<and> (\<exists>k2. 1 \<le> k2 \<and> k2 \<le> 4 \<and> models_of tr4 = models_of tr3 @ take k2 fallback_chain
               \<and> (rc = Inl ProviderExhausted \<longrightarrow> k2 = 4))"
      by simp
  qed
  have F: "\<forall>llmModel.
          (\<forall>e. rc = Inl e \<longrightarrow>
             startMission w url (JStr d) figmaToken figmaFile llmModel tr = (Inl e, tr4))
        \<and> (\<forall>da. rc = Inr da \<longrightarrow>
             (\<exists>g k. generate (genAI w)
                        (FinalReportPrompt plan (length (consoleLogs a)) (networkStatus a) da)
                        [shot] llmModel tr4
                      = (g, snd (startMission w url (JStr d) figmaToken figmaFile llmModel tr))
                  \<and> 1 \<le> k \<and> k \<le> length (modelsToTry llmModel)
                  \<and> models_of (snd (startMission w url (JStr d) figmaToken figmaFile llmModel tr))
                      = models_of tr4 @ take k (modelsToTry llmModel)
                  \<and> (g = Inl ProviderExhausted \<longrightarrow> k = length (modelsToTry llmModel))
                  \<and> (truthy llmModel \<longrightarrow>
                       hd (take k (modelsToTry llmModel)) = interpolate llmModel)))"
  proof (intro allI conjI impI)
    fix llmModel e
    assume "rc = Inl e"
    then show "startMission w url (JStr d) figmaToken figmaFile llmModel tr = (Inl e, tr4)"
      using assms(1) cp(1) ff cm by (simp add: startMission_def assms(3))
  next
    fix llmModel da
    assume da: "rc = Inr da"
    let ?p = "FinalReportPrompt plan (length (consoleLogs a)) (networkStatus a) da"
    obtain g tr5 where gn: "generate (genAI w) ?p [shot] llmModel tr4 = (g, tr5)"
      by (cases "generate (genAI w) ?p [shot] llmModel tr4") auto
    obtain k n where k: "1 \<le> k" "k \<le> length (modelsToTry llmModel)"
        "snd (generate (genAI w) ?p [shot] llmModel tr4) = tr4 @ n"
        "models_of n = take k (modelsToTry llmModel)"
        "fst (generate (genAI w) ?p [shot] llmModel tr4) = Inl ProviderExhausted
           \<longrightarrow> k = length (modelsToTry llmModel)"
      by (rule generate_models [where ai = "genAI w" and p = ?p and ps = "[shot]"
            and pref = llmModel and tr = tr4])
    have run: "snd (startMission w url (JStr d) figmaToken figmaFile llmModel tr) = tr5"
      using assms(1) cp(1) ff cm da gn
      by (simp add: startMission_def assms(2,3) split: sum.splits option.splits)
    have "generate (genAI w) ?p [shot] llmModel tr4
                      = (g, snd (startMission w url (JStr d) figmaToken figmaFile llmModel tr))
                  \<and> 1 \<le> k \<and> k \<le> length (modelsToTry llmModel)
                  \<and> models_of (snd (startMission w url (JStr d) figmaToken figmaFile llmModel tr))
                      = models_of tr4 @ take k (modelsToTry llmModel)
                  \<and> (g = Inl ProviderExhausted \<longrightarrow> k = length (modelsToTry llmModel))
                  \<and> (truthy llmModel \<longrightarrow>
                       hd (take k (modelsToTry llmModel)) = interpolate llmModel)"
      using k gn hd_modelsToTry [of llmModel k] by (simp add: run models_of_append)
    then show "\<exists>g k. generate (genAI w) ?p [shot] llmModel tr4
                      = (g, snd (startMission w url (JStr d) figmaToken figmaFile llmModel tr))
                  \<and> 1 \<le> k \<and> k \<le> length (modelsToTry llmModel)
                  \<and> models_of (snd (startMission w url (JStr d) figmaToken figmaFile llmModel tr))
                      = models_of tr4 @ take k (modelsToTry llmModel)
                  \<and> (g = Inl ProviderExhausted \<longrightarrow> k = length (modelsToTry llmModel))
                  \<and> (truthy llmModel \<longrightarrow>
                       hd (take k (modelsToTry llmModel)) = interpolate llmModel)"
      by blast
  qed
  show ?thesis
    apply (rule exI [of _ g1], rule exI [of _ t1], rule exI [of _ plan], rule exI [of _ tr2])
    apply (rule exI [of _ img], rule exI [of _ tr3], rule exI [of _ rc], rule exI [of _ tr4])
    apply (rule conjI [OF g1], rule conjI [OF cp(1)], rule conjI [OF cp(2)], rule conjI [OF P])
    apply (rule conjI [OF ff], rule conjI [OF m3], rule conjI [OF cm], rule conjI [OF D0])
    apply (rule conjI [OF D1], rule conjI [OF F])
    apply (rule none)
    done
qed


text \<open>
  C10: a mission whose audit fails, or whose device is not a string, makes no generation
  request at all. In every other mission the planner makes one call of \<^verbatim>\<open>generate\<close>
  without a preferred model, the designer (when it has a reference image) makes one call
  of \<^verbatim>\<open>generate\<close> without a preferred model, and only the final generation, when it
  is reached, is a call of \<^verbatim>\<open>generate\<close> with \<^verbatim>\<open>llmModel\<close>. So the requests of
  the planner and of the designer go to the fixed chain from its first model on, to all
  four when every one fails, and nothing before the final generation depends on
  \<^verbatim>\<open>llmModel\<close>; the requests of the final generation follow the candidate list built
  from \<^verbatim>\<open>llmModel\<close>, which is asked first when it is given.
\<close>

theorem preferred_model_only_in_synthesis:
  "(\<forall>e tr1. executeAudit (chromium w) url device tr = (Inl e, tr1) \<longrightarrow>
      (\<forall>llmModel. requests (snd (startMission w url device figmaToken figmaFile llmModel tr))
                     = requests tr))
 \<and> (\<forall>a tr1. executeAudit (chromium w) url device tr = (Inr a, tr1) \<and> (\<forall>s. device \<noteq> JStr s) \<longrightarrow>
      (\<forall>llmModel. requests (snd (startMission w url device figmaToken figmaFile llmModel tr))
                     = requests tr))
 \<and> (\<forall>a tr1 d. executeAudit (chromium w) url device tr = (Inr a, tr1) \<and> device = JStr d \<longrightarrow>
      (\<exists>g1 t1 plan tr2 img tr3 rc tr4.
      generate (genAI w) (ArchitectPrompt d) [InlineData (screenshot a) ''image/png''] None (tr1 @ [Console CreatingTestPlan]) = (g1, t1)
    \<and> createTestPlan (genAI w) (JSON_parse w) (htmlSnippet a) (screenshot a) (JStr d) tr1 = (Inr plan, tr2)
    \<and> (tr2 = t1 \<or> (\<exists>e. tr2 = t1 @ [Console (ArchitectFailed e)]))
    \<and> (\<exists>k1. 1 \<le> k1 \<and> k1 \<le> 4 \<and> models_of tr2 = models_of tr1 @ take k1 fallback_chain
           \<and> (g1 = Inl ProviderExhausted \<longrightarrow> k1 = 4))
    \<and> fetchFigmaImage (network w) (if truthy figmaToken then figmaToken else FIGMA_ACCESS_TOKEN w) figmaFile tr2 = (img, tr3)
    \<and> models_of tr3 = models_of tr2
    \<and> compare (genAI w) (screenshot a) img tr3 = (rc, tr4)
    \<and> (\<not> truthy img \<longrightarrow> tr4 = tr3)
    \<and> (truthy img \<longrightarrow>
          generate (genAI w) DesignPrompt [InlineData (screenshot a) ''image/png'', InlineData img ''image/png''] None
            (tr3 @ [Console ComparingDesign]) = (rc, tr4)
        \<and> (\<exists>k2. 1 \<le> k2 \<and> k2 \<le> 4 \<and> models_of tr4 = models_of tr3 @ take k2 fallback_chain
               \<and> (rc = Inl ProviderExhausted \<longrightarrow> k2 = 4)))
    \<and> (\<forall>llmModel.
          (\<forall>e. rc = Inl e \<longrightarrow>
             startMission w url (JStr d) figmaToken figmaFile llmModel tr = (Inl e, tr4))
        \<and> (\<forall>da. rc = Inr da \<longrightarrow>
             (\<exists>g k. generate (genAI w)
                        (FinalReportPrompt plan (length (consoleLogs a)) (networkStatus a) da)
                        [InlineData (screenshot a) ''image/png''] llmModel tr4
                      = (g, snd (startMission w url (JStr d) figmaToken figmaFile llmModel tr))
                  \<and> 1 \<le> k \<and> k \<le> length (modelsToTry llmModel)
                  \<and> models_of (snd (startMission w url (JStr d) figmaToken figmaFile llmModel tr))
                      = models_of tr4 @ take k (modelsToTry llmModel)
                  \<and> (g = Inl ProviderExhausted \<longrightarrow> k = length (modelsToTry llmModel))
                  \<and> (truthy llmModel \<longrightarrow>
                       hd (take k (modelsToTry llmModel)) = interpolate llmModel))))
    \<and> modelsToTry None = fallback_chain))"
proof (intro conjI allI impI)
  fix e tr1 llmModel
  assume ea: "executeAudit (chromium w) url device tr = (Inl e, tr1)"
  obtain new where "snd (executeAudit (chromium w) url device tr) = tr @ Console (RunningAudit url) # new"
      "requests new = []"
    using executeAudit_trace [of "chromium w" url device tr] by blast
  then have "requests tr1 = requests tr"
    using ea by (simp add: requests_append requests_Cons)
  then show "requests (snd (startMission w url device figmaToken figmaFile llmModel tr)) = requests tr"
    using ea by (simp add: startMission_def)
next
  fix a tr1 llmModel
  assume h: "executeAudit (chromium w) url device tr = (Inr a, tr1) \<and> (\<forall>s. device \<noteq> JStr s)"
  obtain new where "snd (executeAudit (chromium w) url device tr) = tr @ Console (RunningAudit url) # new"
      "requests new = []"
    using executeAudit_trace [of "chromium w" url device tr] by blast
  then have r: "requests tr1 = requests tr"
    using h by (simp add: requests_append requests_Cons)
  obtain e where "createTestPlan (genAI w) (JSON_parse w) (htmlSnippet a) (screenshot a) device tr1
      = (Inl e, tr1 @ [Console CreatingTestPlan])"
    using createTestPlan_device_not_string [of device "genAI w" "JSON_parse w" "htmlSnippet a"
        "screenshot a" tr1] h by blast
  then show "requests (snd (startMission w url device figmaToken figmaFile llmModel tr)) = requests tr"
    using h r by (simp add: startMission_def requests_append requests_Cons requests_Nil)
next
  fix a tr1 d
  assume h: "executeAudit (chromium w) url device tr = (Inr a, tr1) \<and> device = JStr d"
  have ea: "executeAudit (chromium w) url (JStr d) tr = (Inr a, tr1)"
    using h [THEN conjunct1] unfolding h [THEN conjunct2] .
  show "\<exists>g1 t1 plan tr2 img tr3 rc tr4.
      generate (genAI w) (ArchitectPrompt d) [InlineData (screenshot a) ''image/png''] None (tr1 @ [Console CreatingTestPlan]) = (g1, t1)
    \<and> createTestPlan (genAI w) (JSON_parse w) (htmlSnippet a) (screenshot a) (JStr d) tr1 = (Inr plan, tr2)
    \<and> (tr2 = t1 \<or> (\<exists>e. tr2 = t1 @ [Console (ArchitectFailed e)]))
    \<and> (\<exists>k1. 1 \<le> k1 \<and> k1 \<le> 4 \<and> models_of tr2 = models_of tr1 @ take k1 fallback_chain
           \<and> (g1 = Inl ProviderExhausted \<longrightarrow> k1 = 4))
    \<and> fetchFigmaImage (network w) (if truthy figmaToken then figmaToken else FIGMA_ACCESS_TOKEN w) figmaFile tr2 = (img, tr3)
    \<and> models_of tr3 = models_of tr2
    \<and> compare (genAI w) (screenshot a) img tr3 = (rc, tr4)
    \<and> (\<not> truthy img \<longrightarrow> tr4 = tr3)
    \<and> (truthy img \<longrightarrow>
          generate (genAI w) DesignPrompt [InlineData (screenshot a) ''image/png'', InlineData img ''image/png''] None
            (tr3 @ [Console ComparingDesign]) = (rc, tr4)
        \<and> (\<exists>k2. 1 \<le> k2 \<and> k2 \<le> 4 \<and> models_of tr4 = models_of tr3 @ take k2 fallback_chain
               \<and> (rc = Inl ProviderExhausted \<longrightarrow> k2 = 4)))
    \<and> (\<forall>llmModel.
          (\<forall>e. rc = Inl e \<longrightarrow>
             startMission w url (JStr d) figmaToken figmaFile llmModel tr = (Inl e, tr4))
        \<and> (\<forall>da. rc = Inr da \<longrightarrow>
             (\<exists>g k. generate (genAI w)
                        (FinalReportPrompt plan (length (consoleLogs a)) (networkStatus a) da)
                        [InlineData (screenshot a) ''image/png''] llmModel tr4
                      = (g, snd (startMission w url (JStr d) figmaToken figmaFile llmModel tr))
                  \<and> 1 \<le> k \<and> k \<le> length (modelsToTry llmModel)
                  \<and> models_of (snd (startMission w url (JStr d) figmaToken figmaFile llmModel tr))
                      = models_of tr4 @ take k (modelsToTry llmModel)
                  \<and> (g = Inl ProviderExhausted \<longrightarrow> k = length (modelsToTry llmModel))
                  \<and> (truthy llmModel \<longrightarrow>
                       hd (take k (modelsToTry llmModel)) = interpolate llmModel))))
    \<and> modelsToTry None = fallback_chain"
    by (rule mission_generate_calls [OF ea refl refl])
qed

lemma strip_fences_report_text: "strip_fences report_text = report_text"
  by (simp add: strip_fences_def trim_def is_space_def fence_def fence_json_def report_text_def)

lemma calm_world_custom_model:
  "models_of (snd (startMission calm_world example_url (JStr ''desktop'') (Some ''token'')
                     (Some ''KEY'') (Some ''custom-model'') [])) =
     [''gemini-2.5-flash'', ''gemini-2.5-flash'', ''custom-model'']
   \<and> models_for is_ArchitectPrompt
        (snd (startMission calm_world example_url (JStr ''desktop'') (Some ''token'')
                (Some ''KEY'') (Some ''custom-model'') [])) = [''gemini-2.5-flash'']
   \<and> models_for is_DesignPrompt
        (snd (startMission calm_world example_url (JStr ''desktop'') (Some ''token'')
                (Some ''KEY'') (Some ''custom-model'') [])) = [''gemini-2.5-flash'']
   \<and> models_for is_FinalReportPrompt
        (snd (startMission calm_world example_url (JStr ''desktop'') (Some ''token'')
                (Some ''KEY'') (Some ''custom-model'') [])) = [''custom-model'']"
  by (simp add: startMission_def calm_world_def calm_browser_audit createTestPlan_def
      createTestPlan_try_def generate_def modelsToTry_def filter_Boolean_def always_answering_def
      parse_as_def strip_fences_report_text report_value_def fetchFigmaImage_def
      fetchFigmaImage_try_def figma_online_def compare_def truthy_def interpolate_def
      mission_result_def figma_status_def requests_def)

theorem preferred_model_only_in_synthesis_witness:
  "executeAudit (chromium calm_world) example_url (JStr ''desktop'') [] =
     (Inr calm_record, calm_audit_trace)
   \<and> (models_of (snd (startMission calm_world example_url (JStr ''desktop'') (Some ''token'')
                     (Some ''KEY'') (Some ''custom-model'') [])) =
     [''gemini-2.5-flash'', ''gemini-2.5-flash'', ''custom-model'']
   \<and> models_for is_ArchitectPrompt
        (snd (startMission calm_world example_url (JStr ''desktop'') (Some ''token'')
                (Some ''KEY'') (Some ''custom-model'') [])) = [''gemini-2.5-flash'']
   \<and> models_for is_DesignPrompt
        (snd (startMission calm_world example_url (JStr ''desktop'') (Some ''token'')
                (Some ''KEY'') (Some ''custom-model'') [])) = [''gemini-2.5-flash'']
   \<and> models_for is_FinalReportPrompt
        (snd (startMission calm_world example_url (JStr ''desktop'') (Some ''token'')
                (Some ''KEY'') (Some ''custom-model'') [])) = [''custom-model''])
   \<and> (\<exists>g1 t1 plan tr2 img tr3 rc tr4.
      generate (genAI calm_world) (ArchitectPrompt ''desktop'') [InlineData (screenshot calm_record) ''image/png''] None (calm_audit_trace @ [Console CreatingTestPlan]) = (g1, t1)
    \<and> createTestPlan (genAI calm_world) (JSON_parse calm_world) (htmlSnippet calm_record) (screenshot calm_record) (JStr ''desktop'') calm_audit_trace = (Inr plan, tr2)
    \<and> (tr2 = t1 \<or> (\<exists>e. tr2 = t1 @ [Console (ArchitectFailed e)]))
    \<and> (\<exists>k1. 1 \<le> k1 \<and> k1 \<le> 4 \<and> models_of tr2 = models_of calm_audit_trace @ take k1 fallback_chain
           \<and> (g1 = Inl ProviderExhausted \<longrightarrow> k1 = 4))
    \<and> fetchFigmaImage (network calm_world) (if truthy (Some ''token'') then Some ''token'' else FIGMA_ACCESS_TOKEN calm_world) (Some ''KEY'') tr2 = (img, tr3)
    \<and> models_of tr3 = models_of tr2
    \<and> compare (genAI calm_world) (screenshot calm_record) img tr3 = (rc, tr4)
    \<and> (\<not> truthy img \<longrightarrow> tr4 = tr3)
    \<and> (truthy img \<longrightarrow>
          generate (genAI calm_world) DesignPrompt [(InlineData (screenshot calm_record) ''image/png''), InlineData img ''image/png''] None
            (tr3 @ [Console ComparingDesign]) = (rc, tr4)
        \<and> (\<exists>k2. 1 \<le> k2 \<and> k2 \<le> 4 \<and> models_of tr4 = models_of tr3 @ take k2 fallback_chain
               \<and> (rc = Inl ProviderExhausted \<longrightarrow> k2 = 4)))
    \<and> (\<forall>llmModel.
          (\<forall>e. rc = Inl e \<longrightarrow>
             startMission calm_world example_url (JStr ''desktop'') (Some ''token'') (Some ''KEY'') llmModel [] = (Inl e, tr4))
        \<and> (\<forall>da. rc = Inr da \<longrightarrow>
             (\<exists>g k. generate (genAI calm_world)
                        (FinalReportPrompt plan (length (consoleLogs calm_record)) (networkStatus calm_record) da)
                        [InlineData (screenshot calm_record) ''image/png''] llmModel tr4
                      = (g, snd (startMission calm_world example_url (JStr ''desktop'') (Some ''token'') (Some ''KEY'') llmModel []))
                  \<and> 1 \<le> k \<and> k \<le> length (modelsToTry llmModel)
                  \<and> models_of (snd (startMission calm_world example_url (JStr ''desktop'') (Some ''token'') (Some ''KEY'') llmModel []))
                      = models_of tr4 @ take k (modelsToTry llmModel)
                  \<and> (g = Inl ProviderExhausted \<longrightarrow> k = length (modelsToTry llmModel))
                  \<and> (truthy llmModel \<longrightarrow>
                       hd (take k (modelsToTry llmModel)) = interpolate llmModel))))
    \<and> modelsToTry None = fallback_chain)"
  by (rule conjI [OF calm_world_audit conjI [OF calm_world_custom_model
        preferred_model_only_in_synthesis [where w = calm_world and url = example_url
          and device = "JStr ''desktop''" and tr = "[]" and figmaToken = "Some ''token''"
          and figmaFile = "Some ''KEY''", THEN conjunct2, THEN conjunct2, THEN spec, THEN spec,
          THEN spec, THEN mp, OF conjI [OF calm_world_audit refl]]]])

lemma slow_browser_open_page:
  "open_page slow_browser (JStr ''desktop'') ([] @ [Console (RunningAudit example_url)]) =
     (Inr (), True,
      [Console (RunningAudit example_url), Browser Launch,
       Browser (NewContext (1920, 1080) False), Browser NewPage])"
  by (simp add: open_page_def call_def viewport_for_def slow_browser_def calm_browser_def)

lemma slow_browser_goto:
  "reply slow_browser tr (Goto example_url 45000) = Inl timeout_message"
  by (simp add: slow_browser_def calm_browser_def)

lemma slow_browser_close:
  "reply slow_browser tr Close = Inr []"
  by (simp add: slow_browser_def calm_browser_def)

lemma timeout_audit:
  assumes "open_page pw device (tr @ [Console (RunningAudit url)]) = (Inr u, True, tr3)"
    and "reply pw tr3 (Goto url 45000) = Inl msg"
    and "reply pw (tr3 @ Browser (Goto url 45000) # map Delivered (emitted pw tr3 (Goto url 45000))) Close = Inr ok"
  shows "executeAudit pw url device tr =
      (Inl (AuditFailure msg),
       tr3 @ Browser (Goto url 45000) # map Delivered (emitted pw tr3 (Goto url 45000)) @ [Browser Close])"
  using assms
  by (simp add: executeAudit_def audit_steps_def navigate_def await_page_def catch_block_def call_def)

text \<open>
  C8: a mission produces its audit record before any generation request, or fails first
  with \<^verbatim>\<open>AuditFailure\<close> without any generation request, and a navigation that runs
  into its timeout fails the mission with the message of the timeout. At the input below
  the navigation runs into its timeout and the closing of the browser in the
  \<^verbatim>\<open>catch\<close> block of the audit throws as well: no generation request is made, but
  the mission fails with the error of the closing, which is not an \<^verbatim>\<open>AuditFailure\<close>
  and does not mention the timeout. Here the code does not do what the claim states; the
  defect is the unguarded closing of the \<^verbatim>\<open>catch\<close> block, the same as for C6.
\<close>

theorem mission_fails_with_closing_error:
  "reply (chromium broken_world)
     [Console (RunningAudit example_url), Browser Launch,
      Browser (NewContext (1920, 1080) False), Browser NewPage]
     (Goto example_url 45000) = Inl timeout_message
   \<and> fst (startMission broken_world example_url (JStr ''desktop'') None None None []) =
     Inl (Error ''browser.close: Connection closed'')
   \<and> fst (startMission broken_world example_url (JStr ''desktop'') None None None []) \<noteq>
     Inl (AuditFailure timeout_message)
   \<and> requests (snd (startMission broken_world example_url (JStr ''desktop'') None None None [])) = []"
  by (simp add: startMission_def broken_world_def calm_world_def broken_browser_audit
      broken_browser_goto AuditFailure_def timeout_message_def requests_def)

text \<open>
  The order of a mission. The audit comes first and runs once: either it returns a
  complete record (with its screenshot) before any generation request is made, and the
  rest of the mission makes no call on the browser; or the mission fails with the error of
  the audit, as it is, having made no generation request. When the navigation runs into
  its timeout and the browser closes, that error is "Executor Audit Failed: " followed by
  the message of the timeout.
\<close>

theorem audit_precedes_generation:
  assumes "m = startMission w url device figmaToken figmaFile llmModel tr"
  shows "(\<forall>e tr1. executeAudit (chromium w) url device tr = (Inl e, tr1) \<longrightarrow>
            m = (Inl e, tr1) \<and> requests tr1 = requests tr)
       \<and> (\<forall>a tr1. executeAudit (chromium w) url device tr = (Inr a, tr1) \<longrightarrow>
            screenshot a \<noteq> None \<and> requests tr1 = requests tr
          \<and> (\<exists>rest. snd m = tr1 @ rest \<and> browser_calls rest = []))
       \<and> (\<forall>u tr3 msg ok.
              open_page (chromium w) device (tr @ [Console (RunningAudit url)]) = (Inr u, True, tr3)
            \<and> reply (chromium w) tr3 (Goto url 45000) = Inl msg
            \<and> reply (chromium w)
                 (tr3 @ Browser (Goto url 45000) # map Delivered (emitted (chromium w) tr3 (Goto url 45000)))
                 Close = Inr ok \<longrightarrow>
            fst m = Inl (AuditFailure msg)
          \<and> message (AuditFailure msg) = ''Executor Audit Failed: '' @ msg
          \<and> requests (snd m) = requests tr)"
proof -
  obtain new where "snd (executeAudit (chromium w) url device tr) = tr @ Console (RunningAudit url) # new"
      "requests new = []"
    using executeAudit_trace [of "chromium w" url device tr] by blast
  then have quiet: "requests (snd (executeAudit (chromium w) url device tr)) = requests tr"
    by (simp add: requests_append requests_Cons)
  have 1: "\<forall>e tr1. executeAudit (chromium w) url device tr = (Inl e, tr1) \<longrightarrow>
            m = (Inl e, tr1) \<and> requests tr1 = requests tr"
  proof (intro allI impI)
    fix e tr1
    assume ea: "executeAudit (chromium w) url device tr = (Inl e, tr1)"
    have "requests tr1 = requests tr"
      using quiet ea by simp
    moreover have "m = (Inl e, tr1)"
      using ea assms by (simp add: startMission_def)
    ultimately show "m = (Inl e, tr1) \<and> requests tr1 = requests tr"
      by simp
  qed
  have 2: "\<forall>a tr1. executeAudit (chromium w) url device tr = (Inr a, tr1) \<longrightarrow>
            screenshot a \<noteq> None \<and> requests tr1 = requests tr
          \<and> (\<exists>rest. snd m = tr1 @ rest \<and> browser_calls rest = [])"
  proof (intro allI impI)
    fix a tr1
    assume ea: "executeAudit (chromium w) url device tr = (Inr a, tr1)"
    have r: "requests tr1 = requests tr"
      using quiet ea by simp
    have s: "screenshot a \<noteq> None"
      using executeAudit_trace [of "chromium w" url device tr] ea by auto
    have "\<exists>rest. snd m = tr1 @ rest \<and> browser_calls rest = []"
      unfolding assms by (rule startMission_after_audit [OF ea])
    with r s show "screenshot a \<noteq> None \<and> requests tr1 = requests tr
          \<and> (\<exists>rest. snd m = tr1 @ rest \<and> browser_calls rest = [])"
      by simp
  qed
  have 3: "\<forall>u tr3 msg ok.
              open_page (chromium w) device (tr @ [Console (RunningAudit url)]) = (Inr u, True, tr3)
            \<and> reply (chromium w) tr3 (Goto url 45000) = Inl msg
            \<and> reply (chromium w)
                 (tr3 @ Browser (Goto url 45000) # map Delivered (emitted (chromium w) tr3 (Goto url 45000)))
                 Close = Inr ok \<longrightarrow>
            fst m = Inl (AuditFailure msg)
          \<and> message (AuditFailure msg) = ''Executor Audit Failed: '' @ msg
          \<and> requests (snd m) = requests tr"
  proof (intro allI impI)
    fix u tr3 msg ok
    assume h: "open_page (chromium w) device (tr @ [Console (RunningAudit url)]) = (Inr u, True, tr3)
            \<and> reply (chromium w) tr3 (Goto url 45000) = Inl msg
            \<and> reply (chromium w)
                 (tr3 @ Browser (Goto url 45000) # map Delivered (emitted (chromium w) tr3 (Goto url 45000)))
                 Close = Inr ok"
    let ?tr1 = "tr3 @ Browser (Goto url 45000) # map Delivered (emitted (chromium w) tr3 (Goto url 45000)) @ [Browser Close]"
    have ea: "executeAudit (chromium w) url device tr = (Inl (AuditFailure msg), ?tr1)"
      using h by (intro timeout_audit) simp_all
    have "m = (Inl (AuditFailure msg), ?tr1) \<and> requests ?tr1 = requests tr"
      using 1 ea by blast
    then show "fst m = Inl (AuditFailure msg)
          \<and> message (AuditFailure msg) = ''Executor Audit Failed: '' @ msg
          \<and> requests (snd m) = requests tr"
      by (simp add: AuditFailure_def)
  qed
  from 1 2 3 show ?thesis by (intro conjI)
qed

theorem audit_precedes_generation_witness:
  "open_page (chromium slow_world) (JStr ''desktop'') ([] @ [Console (RunningAudit example_url)]) =
     (Inr (), True,
      [Console (RunningAudit example_url), Browser Launch,
       Browser (NewContext (1920, 1080) False), Browser NewPage])
   \<and> reply (chromium slow_world)
       [Console (RunningAudit example_url), Browser Launch,
        Browser (NewContext (1920, 1080) False), Browser NewPage]
       (Goto example_url 45000) = Inl timeout_message
   \<and> fst (startMission slow_world example_url (JStr ''desktop'') None None None []) =
       Inl (AuditFailure timeout_message)
   \<and> message (AuditFailure timeout_message) = ''Executor Audit Failed: '' @ timeout_message
   \<and> requests (snd (startMission slow_world example_url (JStr ''desktop'') None None None [])) = requests []"
proof -
  have w: "chromium slow_world = slow_browser"
    by (simp add: slow_world_def calm_world_def)
  have h: "open_page (chromium slow_world) (JStr ''desktop'') ([] @ [Console (RunningAudit example_url)]) =
     (Inr (), True,
      [Console (RunningAudit example_url), Browser Launch,
       Browser (NewContext (1920, 1080) False), Browser NewPage])
   \<and> reply (chromium slow_world)
       [Console (RunningAudit example_url), Browser Launch,
        Browser (NewContext (1920, 1080) False), Browser NewPage]
       (Goto example_url 45000) = Inl timeout_message
   \<and> reply (chromium slow_world)
       ([Console (RunningAudit example_url), Browser Launch,
        Browser (NewContext (1920, 1080) False), Browser NewPage]
        @ Browser (Goto example_url 45000) # map Delivered (emitted (chromium slow_world)
          [Console (RunningAudit example_url), Browser Launch,
           Browser (NewContext (1920, 1080) False), Browser NewPage] (Goto example_url 45000)))
       Close = Inr []"
    unfolding w by (intro conjI slow_browser_open_page slow_browser_goto slow_browser_close)
  note timed_out = audit_precedes_generation [where w = slow_world and url = example_url
      and device = "JStr ''desktop''" and figmaToken = None and figmaFile = None and llmModel = None
      and tr = "[]", OF refl, THEN conjunct2, THEN conjunct2, THEN spec, THEN spec, THEN spec,
      THEN spec, THEN mp, OF h]
  show ?thesis
    using h timed_out by blast
qed


lemma map_of_set_property:
  "map_of (set_property k v kvs) = (map_of kvs)(k \<mapsto> v)"
  by (induction kvs) auto

lemma mission_result_lookup:
  "map_of (mission_result report shot img file) ''screenshot_preview'' =
      Some (JStr (take 50 shot @ ''...''))
   \<and> map_of (mission_result report shot img file) ''figma_status'' =
      Some (JStr (figma_status img file))
   \<and> (\<forall>k. k \<noteq> ''screenshot_preview'' \<and> k \<noteq> ''figma_status'' \<longrightarrow>
         map_of (mission_result report shot img file) k = map_of (spread report) k)"
  by (simp add: mission_result_def map_of_set_property)

lemma figma_status_cases:
  assumes "\<not> truthy file \<longrightarrow> \<not> truthy img"
  shows "figma_status img file =
     (if \<not> truthy file then ''skipped'' else if \<not> truthy img then ''failed'' else ''success'')"
  using assms by (simp add: figma_status_def)

lemma startMission_done:
  assumes "startMission w url device figmaToken figmaFile llmModel tr = (Inr result, tr')"
  shows "\<exists>a tr1 plan tr2 img tr3 d tr4 raw report shot.
       executeAudit (chromium w) url device tr = (Inr a, tr1)
     \<and> screenshot a = Some shot
     \<and> createTestPlan (genAI w) (JSON_parse w) (htmlSnippet a) (screenshot a) device tr1 = (Inr plan, tr2)
     \<and> fetchFigmaImage (network w) (if truthy figmaToken then figmaToken else FIGMA_ACCESS_TOKEN w)
          figmaFile tr2 = (img, tr3)
     \<and> compare (genAI w) (screenshot a) img tr3 = (Inr d, tr4)
     \<and> generate (genAI w) (FinalReportPrompt plan (length (consoleLogs a)) (networkStatus a) d)
          [InlineData (screenshot a) ''image/png''] llmModel tr4 = (Inr raw, tr')
     \<and> JSON_parse w (strip_fences raw) = Inr report
     \<and> result = mission_result report shot img figmaFile"
  using assms unfolding startMission_def Let_def
  by (auto split: prod.splits sum.splits option.splits)

text \<open>
  C9: the result of a mission that reaches its end is the decoded final report with two
  properties written over it: \<^verbatim>\<open>screenshot_preview\<close>, the first 50 characters of the
  screenshot of the audit followed by three full stops, and \<^verbatim>\<open>figma_status\<close>, which is
  "skipped" when no file key was given (unset or empty), "failed" when a file key was
  given and no reference image (none, or an empty one) came back, and "success"
  otherwise. Every other property is the one of the report.
\<close>

theorem mission_result_shape:
  assumes "startMission w url device figmaToken figmaFile llmModel tr = (Inr result, tr')"
  shows "\<exists>a tr1 plan tr2 img tr3 d tr4 raw report shot.
       executeAudit (chromium w) url device tr = (Inr a, tr1)
     \<and> screenshot a = Some shot
     \<and> createTestPlan (genAI w) (JSON_parse w) (htmlSnippet a) (screenshot a) device tr1 = (Inr plan, tr2)
     \<and> fetchFigmaImage (network w) (if truthy figmaToken then figmaToken else FIGMA_ACCESS_TOKEN w)
          figmaFile tr2 = (img, tr3)
     \<and> compare (genAI w) (screenshot a) img tr3 = (Inr d, tr4)
     \<and> generate (genAI w) (FinalReportPrompt plan (length (consoleLogs a)) (networkStatus a) d)
          [InlineData (screenshot a) ''image/png''] llmModel tr4 = (Inr raw, tr')
     \<and> JSON_parse w (strip_fences raw) = Inr report
     \<and> map_of result ''screenshot_preview'' = Some (JStr (take 50 shot @ ''...''))
     \<and> map_of result ''figma_status'' =
          Some (JStr (if \<not> truthy figmaFile then ''skipped''
                      else if \<not> truthy img then ''failed'' else ''success''))
     \<and> (\<forall>k. k \<noteq> ''screenshot_preview'' \<and> k \<noteq> ''figma_status'' \<longrightarrow>
           map_of result k = map_of (spread report) k)"
proof -
  let ?auth = "if truthy figmaToken then figmaToken else FIGMA_ACCESS_TOKEN w"
  obtain a tr1 plan tr2 img tr3 d tr4 raw report shot where s:
      "executeAudit (chromium w) url device tr = (Inr a, tr1)"
      "screenshot a = Some shot"
      "createTestPlan (genAI w) (JSON_parse w) (htmlSnippet a) (screenshot a) device tr1 = (Inr plan, tr2)"
      "fetchFigmaImage (network w) ?auth figmaFile tr2 = (img, tr3)"
      "compare (genAI w) (screenshot a) img tr3 = (Inr d, tr4)"
      "generate (genAI w) (FinalReportPrompt plan (length (consoleLogs a)) (networkStatus a) d)
          [InlineData (screenshot a) ''image/png''] llmModel tr4 = (Inr raw, tr')"
      "JSON_parse w (strip_fences raw) = Inr report"
      "result = mission_result report shot img figmaFile"
    using startMission_done [OF assms] by blast
  have "\<not> truthy figmaFile \<longrightarrow> \<not> truthy img"
    using fetchFigmaImage_without_key [of figmaFile "network w" ?auth tr2] s(4)
    by (auto simp: truthy_def)
  then have st: "figma_status img figmaFile =
     (if \<not> truthy figmaFile then ''skipped'' else if \<not> truthy img then ''failed'' else ''success'')"
    by (rule figma_status_cases)
  note look = mission_result_lookup [of report shot img figmaFile]
  have p: "map_of result ''screenshot_preview'' = Some (JStr (take 50 shot @ ''...''))"
    unfolding s(8) using look by blast
  have f: "map_of result ''figma_status'' =
          Some (JStr (if \<not> truthy figmaFile then ''skipped''
                      else if \<not> truthy img then ''failed'' else ''success''))"
    unfolding s(8) using look st by simp
  have o: "\<forall>k. k \<noteq> ''screenshot_preview'' \<and> k \<noteq> ''figma_status'' \<longrightarrow>
           map_of result k = map_of (spread report) k"
    unfolding s(8) using look by blast
  show ?thesis
    by (intro exI conjI) (rule s(1) s(2) s(3) s(4) s(5) s(6) s(7) p f o)+
qed

lemma calm_world_mission:
  "startMission calm_world example_url (JStr ''desktop'') (Some ''token'') (Some ''KEY'') None [] =
     (Inr [(''status'', JStr ''pass''),
           (''screenshot_preview'', JStr ''iVBORw0KGgo=...''),
           (''figma_status'', JStr ''success'')],
      snd (startMission calm_world example_url (JStr ''desktop'') (Some ''token'') (Some ''KEY'') None []))"
  by (simp add: startMission_def calm_world_def calm_browser_audit createTestPlan_def
      createTestPlan_try_def generate_def modelsToTry_def filter_Boolean_def always_answering_def
      parse_as_def strip_fences_report_text report_value_def fetchFigmaImage_def
      fetchFigmaImage_try_def figma_online_def compare_def truthy_def interpolate_def
      mission_result_def figma_status_def requests_def)

theorem mission_result_shape_witness:
  "startMission calm_world example_url (JStr ''desktop'') (Some ''token'') (Some ''KEY'') None [] =
     (Inr [(''status'', JStr ''pass''),
           (''screenshot_preview'', JStr ''iVBORw0KGgo=...''),
           (''figma_status'', JStr ''success'')],
      snd (startMission calm_world example_url (JStr ''desktop'') (Some ''token'') (Some ''KEY'') None []))
   \<and> truthy (Some ''KEY'')
   \<and> map_of [(''status'', JStr ''pass''),
           (''screenshot_preview'', JStr ''iVBORw0KGgo=...''),
           (''figma_status'', JStr ''success'')] ''figma_status'' = Some (JStr ''success'')
   \<and> (\<exists>shot img report.
         map_of [(''status'', JStr ''pass''),
           (''screenshot_preview'', JStr ''iVBORw0KGgo=...''),
           (''figma_status'', JStr ''success'')] ''screenshot_preview''
           = Some (JStr (take 50 shot @ ''...''))
       \<and> map_of [(''status'', JStr ''pass''),
           (''screenshot_preview'', JStr ''iVBORw0KGgo=...''),
           (''figma_status'', JStr ''success'')] ''figma_status''
           = Some (JStr (if \<not> truthy (Some ''KEY'') then ''skipped''
                         else if \<not> truthy img then ''failed'' else ''success''))
       \<and> map_of [(''status'', JStr ''pass''),
           (''screenshot_preview'', JStr ''iVBORw0KGgo=...''),
           (''figma_status'', JStr ''success'')] ''status'' = map_of (spread report) ''status'')"
proof -
  from mission_result_shape [OF calm_world_mission]
  obtain shot img report where r:
     "map_of [(''status'', JStr ''pass''),
           (''screenshot_preview'', JStr ''iVBORw0KGgo=...''),
           (''figma_status'', JStr ''success'')] ''screenshot_preview''
           = Some (JStr (take 50 shot @ ''...''))"
     "map_of [(''status'', JStr ''pass''),
           (''screenshot_preview'', JStr ''iVBORw0KGgo=...''),
           (''figma_status'', JStr ''success'')] ''figma_status''
           = Some (JStr (if \<not> truthy (Some ''KEY'') then ''skipped''
                         else if \<not> truthy img then ''failed'' else ''success''))"
     "\<forall>k. k \<noteq> ''screenshot_preview'' \<and> k \<noteq> ''figma_status'' \<longrightarrow>
        map_of [(''status'', JStr ''pass''),
           (''screenshot_preview'', JStr ''iVBORw0KGgo=...''),
           (''figma_status'', JStr ''success'')] k = map_of (spread report) k"
    by (elim exE conjE)
  have s: "map_of [(''status'', JStr ''pass''),
           (''screenshot_preview'', JStr ''iVBORw0KGgo=...''),
           (''figma_status'', JStr ''success'')] ''status'' = map_of (spread report) ''status''"
    by (rule r(3) [THEN spec, THEN mp]) simp
  have t: "truthy (Some ''KEY'')"
    by (simp add: truthy_def)
  have l: "map_of [(''status'', JStr ''pass''),
           (''screenshot_preview'', JStr ''iVBORw0KGgo=...''),
           (''figma_status'', JStr ''success'')] ''figma_status'' = Some (JStr ''success'')"
    by simp
  show ?thesis
    by (intro conjI exI) (rule calm_world_mission t l r(1) r(2) s)+
qed


text \<open>
  The handler answers with status 200 and the result of the mission, or with status 500
  and the message of the error; a navigation that runs into its timeout is answered with
  the wrapped message of the timeout.
\<close>

lemma start_test_answer:
  assumes "deviceToTest = (case devices of Some (d # ds) \<Rightarrow> d | _ \<Rightarrow> JStr ''desktop'')"
  shows "fst (start_test w url devices figmaToken figmaFile llmModel tr) =
     (case fst (startMission w url deviceToTest figmaToken figmaFile llmModel
                  (tr @ [Console (MissionStart url deviceToTest)])) of
        Inr result \<Rightarrow> Status200 result
      | Inl e \<Rightarrow> Status500 (message e))"
proof -
  obtain r tr1 where run: "startMission w url deviceToTest figmaToken figmaFile llmModel
                  (tr @ [Console (MissionStart url deviceToTest)]) = (r, tr1)"
    by (cases "startMission w url deviceToTest figmaToken figmaFile llmModel
                  (tr @ [Console (MissionStart url deviceToTest)])") auto
  show ?thesis
    using run unfolding assms by (cases r) (simp_all add: start_test_def)
qed

lemma start_test_timeout:
  "fst (start_test slow_world example_url (Some [JStr ''desktop'']) None None None []) =
     Status500 ''Executor Audit Failed: page.goto: Timeout 45000ms exceeded.''"
  by (simp add: start_test_def startMission_def slow_world_def calm_world_def executeAudit_def
      audit_steps_def open_page_def navigate_def catch_block_def call_def await_page_def
      viewport_for_def slow_browser_def calm_browser_def AuditFailure_def timeout_message_def)

text \<open>
  A request whose first device is the number 7: the audit takes the desktop viewport and
  succeeds, the template of the planner's prompt throws, and the handler answers with
  status 500.
\<close>

lemma start_test_number_device:
  "fst (start_test calm_world example_url (Some [JNum 7]) None None None []) =
     Status500 ''device.toUpperCase is not a function''"
  by (simp add: start_test_def startMission_def calm_world_def executeAudit_def
      audit_steps_def open_page_def navigate_def capture_def call_def await_page_def
      viewport_for_def calm_browser_def createTestPlan_def)


end
